theory Spec2Isabelle
  imports Main "HOL-Library.Product_Lexorder"
begin

section \<open>Data model (prisma/migrations/20250927160142_init/migration.sql)\<close>

text \<open>
  Rows are records, tables are lists of rows in insertion order, and the database is a
  record of tables. Primary keys are UUID strings, timestamps are milliseconds as
  integers. Columns that no modelled function reads (\<open>updatedAt\<close>, the
  colour of a category, the surrogate key of \<open>task_assignees\<close>, the
  \<open>invitations\<close> table) are left out.
\<close>

type_synonym id = string
type_synonym timestamp = int

datatype Role = OWNER | MEMBER
datatype TaskStatus = PENDING | COMPLETED
datatype TaskPriority = LOW | MEDIUM | HIGH

record House =
  h_id :: id
  h_name :: string
  h_description :: "string option"

record HouseMember =
  m_id :: id
  m_displayName :: string
  m_role :: Role
  m_createdAt :: timestamp
  m_userId :: id
  m_houseId :: id

record Task =
  t_id :: id
  t_title :: string
  t_description :: "string option"
  t_status :: TaskStatus
  t_priority :: TaskPriority
  t_dueDate :: "timestamp option"
  t_completedAt :: "timestamp option"
  t_createdAt :: timestamp
  t_houseId :: id
  t_categoryId :: "id option"
  t_createdById :: id

record TaskAssignee =
  a_taskId :: id
  a_houseMemberId :: id

record Category =
  c_id :: id
  c_name :: string
  c_houseId :: id

record store =
  users :: "id list"
  houses :: "House list"
  house_members :: "HouseMember list"
  tasks :: "Task list"
  task_assignees :: "TaskAssignee list"
  categories :: "Category list"

text \<open>
  The error classes of shared/errors/AppError with their messages; \<open>ZodError\<close> is
  what a schema's \<open>parse\<close> throws, \<open>PrismaError\<close> what the database client
  throws on a violated constraint or a missing row.
\<close>

datatype error =
  NotFoundError string
  | UnprocessableEntityError string
  | ForbiddenError string
  | ZodError string
  | PrismaError string

datatype success = Success

text \<open>
  A mutating operation takes the store and returns the store it leaves behind together
  with its outcome: \<open>Inl\<close> the exception thrown, \<open>Inr\<close> the value returned.
\<close>

type_synonym 'a outcome = "store \<times> (error + 'a)"

text \<open>
  \<open>prisma.$transaction\<close>: the callback runs against the store; when it throws, every
  write it made is rolled back.
\<close>

definition transaction :: "(store \<Rightarrow> 'a outcome) \<Rightarrow> store \<Rightarrow> 'a outcome" where
  "transaction body s =
     (case body s of
        (s', Inl e) \<Rightarrow> (s, Inl e)
      | (s', Inr v) \<Rightarrow> (s', Inr v))"

subsection \<open>Constraints of the schema\<close>

text \<open>The unique index and the primary key on \<open>house_members\<close>, the primary key on \<open>tasks\<close>.\<close>

definition house_members_userId_houseId_key :: "store \<Rightarrow> bool" where
  "house_members_userId_houseId_key s =
     distinct (map (\<lambda>m. (m_userId m, m_houseId m)) (house_members s))"

definition house_members_pkey :: "store \<Rightarrow> bool" where
  "house_members_pkey s = distinct (map m_id (house_members s))"

definition tasks_pkey :: "store \<Rightarrow> bool" where
  "tasks_pkey s = distinct (map t_id (tasks s))"

text \<open>The foreign key from \<open>house_members.houseId\<close> to \<open>houses.id\<close>.\<close>

definition house_members_houseId_fkey :: "store \<Rightarrow> bool" where
  "house_members_houseId_fkey s =
     list_all (\<lambda>m. m_houseId m \<in> set (map h_id (houses s))) (house_members s)"

section \<open>Database client calls on houses and members\<close>

record CreateHouseInput =
  chi_name :: string
  chi_description :: "string option"

text \<open>
  \<open>tx.house.create\<close>. The client generates the primary key; the generated value is the
  argument \<open>newId\<close>, and an insert with a key already present violates
  \<open>houses_pkey\<close>.
\<close>

definition house_create :: "id \<Rightarrow> CreateHouseInput \<Rightarrow> store \<Rightarrow> House outcome" where
  "house_create newId data s =
     (if newId \<in> set (map h_id (houses s)) then (s, Inl (PrismaError ''houses_pkey''))
      else
        (let house = \<lparr>h_id = newId, h_name = chi_name data,
                       h_description = chi_description data\<rparr>
         in (s\<lparr>houses := houses s @ [house]\<rparr>, Inr house)))"

text \<open>
  \<open>tx.houseMember.create\<close>, with the constraints of \<open>house_members\<close> checked in turn:
  primary key, the two unique indexes, the two foreign keys.
\<close>

definition houseMember_create ::
  "id \<Rightarrow> timestamp \<Rightarrow> id \<Rightarrow> id \<Rightarrow> string \<Rightarrow> Role \<Rightarrow> store \<Rightarrow> HouseMember outcome" where
  "houseMember_create newId now userId houseId displayName role s =
     (if newId \<in> set (map m_id (house_members s))
        then (s, Inl (PrismaError ''house_members_pkey''))
      else if (userId, houseId) \<in> set (map (\<lambda>m. (m_userId m, m_houseId m)) (house_members s))
        then (s, Inl (PrismaError ''house_members_userId_houseId_key''))
      else if (displayName, houseId)
                \<in> set (map (\<lambda>m. (m_displayName m, m_houseId m)) (house_members s))
        then (s, Inl (PrismaError ''house_members_displayName_houseId_key''))
      else if userId \<notin> set (users s)
        then (s, Inl (PrismaError ''house_members_userId_fkey''))
      else if houseId \<notin> set (map h_id (houses s))
        then (s, Inl (PrismaError ''house_members_houseId_fkey''))
      else
        (let member = \<lparr>m_id = newId, m_displayName = displayName, m_role = role,
                        m_createdAt = now, m_userId = userId, m_houseId = houseId\<rparr>
         in (s\<lparr>house_members := house_members s @ [member]\<rparr>, Inr member)))"

text \<open>\<open>prisma.houseMember.findUnique\<close> on the key \<open>userId_houseId\<close>.\<close>

definition houseMember_findUnique :: "store \<Rightarrow> id \<Rightarrow> id \<Rightarrow> HouseMember option" where
  "houseMember_findUnique s userId houseId =
     find (\<lambda>m. m_userId m = userId \<and> m_houseId m = houseId) (house_members s)"

text \<open>\<open>prisma.houseMember.findUnique\<close> on the primary key.\<close>

definition houseMember_findUnique_id :: "store \<Rightarrow> id \<Rightarrow> HouseMember option" where
  "houseMember_findUnique_id s memberId = find (\<lambda>m. m_id m = memberId) (house_members s)"

text \<open>\<open>prisma.houseMember.count\<close> with \<open>where: { houseId, role: "OWNER" }\<close>.\<close>

definition ownerCount :: "store \<Rightarrow> id \<Rightarrow> nat" where
  "ownerCount s houseId =
     length (filter (\<lambda>m. m_houseId m = houseId \<and> m_role m = OWNER) (house_members s))"

text \<open>
  \<open>prisma.houseMember.delete\<close> on the key \<open>userId_houseId\<close>. A missing row is an
  error of the client. The foreign keys onto \<open>house_members.id\<close> act as the migration
  declares them: \<open>task_assignees.houseMemberId\<close> is ON DELETE CASCADE, and
  \<open>tasks.createdById\<close> is ON DELETE SET NULL on a NOT NULL column, so deleting a member
  who created a task is refused by the database.
\<close>

definition houseMember_delete :: "id \<Rightarrow> id \<Rightarrow> store \<Rightarrow> HouseMember outcome" where
  "houseMember_delete userId houseId s =
     (case houseMember_findUnique s userId houseId of
        None \<Rightarrow> (s, Inl (PrismaError ''P2025''))
      | Some m \<Rightarrow>
          if list_ex (\<lambda>t. t_createdById t = m_id m) (tasks s)
          then (s, Inl (PrismaError ''tasks_createdById_not_null''))
          else
            (s\<lparr>house_members :=
                  filter (\<lambda>x. \<not> (m_userId x = userId \<and> m_houseId x = houseId))
                    (house_members s),
                task_assignees :=
                  filter (\<lambda>a. a_houseMemberId a \<noteq> m_id m) (task_assignees s)\<rparr>,
             Inr m))"

text \<open>\<open>prisma.houseMember.update\<close> on the key \<open>userId_houseId\<close> with \<open>data: { role }\<close>.\<close>

definition houseMember_update_role :: "id \<Rightarrow> id \<Rightarrow> Role \<Rightarrow> store \<Rightarrow> HouseMember outcome" where
  "houseMember_update_role userId houseId newRole s =
     (case houseMember_findUnique s userId houseId of
        None \<Rightarrow> (s, Inl (PrismaError ''P2025''))
      | Some m \<Rightarrow>
          (s\<lparr>house_members :=
                map (\<lambda>x. if m_userId x = userId \<and> m_houseId x = houseId
                          then x\<lparr>m_role := newRole\<rparr> else x)
                  (house_members s)\<rparr>,
           Inr (m\<lparr>m_role := newRole\<rparr>)))"

section \<open>HouseService\<close>

text \<open>
  \<open>HouseService.createHouse\<close>: inside one transaction, create the house, then add the
  creator as OWNER member; the house is returned.
\<close>

definition createHouse_body ::
  "id \<Rightarrow> id \<Rightarrow> timestamp \<Rightarrow> id \<Rightarrow> CreateHouseInput \<Rightarrow> string \<Rightarrow> store
     \<Rightarrow> (House \<times> HouseMember) outcome" where
  "createHouse_body newHouseId newMemberId now userId data displayName tx =
     (case house_create newHouseId data tx of
        (tx1, Inl e) \<Rightarrow> (tx1, Inl e)
      | (tx1, Inr house) \<Rightarrow>
          (case houseMember_create newMemberId now userId (h_id house) displayName OWNER tx1 of
             (tx2, Inl e) \<Rightarrow> (tx2, Inl e)
           | (tx2, Inr houseMember) \<Rightarrow> (tx2, Inr (house, houseMember))))"

definition createHouse ::
  "id \<Rightarrow> id \<Rightarrow> timestamp \<Rightarrow> id \<Rightarrow> CreateHouseInput \<Rightarrow> string \<Rightarrow> store \<Rightarrow> House outcome" where
  "createHouse newHouseId newMemberId now userId data displayName s =
     (case transaction (createHouse_body newHouseId newMemberId now userId data displayName) s of
        (s', Inl e) \<Rightarrow> (s', Inl e)
      | (s', Inr result) \<Rightarrow> (s', Inr (fst result)))"

text \<open>\<open>HouseService.removeMember\<close>.\<close>

definition removeMember :: "id \<Rightarrow> id \<Rightarrow> store \<Rightarrow> success outcome" where
  "removeMember houseId targetUserId s =
     (case houseMember_findUnique s targetUserId houseId of
        None \<Rightarrow> (s, Inl (NotFoundError ''User is not a member of this house''))
      | Some targetMember \<Rightarrow>
          if m_role targetMember = OWNER \<and> ownerCount s houseId \<le> 1
          then (s, Inl (UnprocessableEntityError ''Cannot remove the last owner of the house''))
          else
            (case houseMember_delete targetUserId houseId s of
               (s', Inl e) \<Rightarrow> (s', Inl e)
             | (s', Inr _) \<Rightarrow> (s', Inr Success)))"

text \<open>\<open>HouseService.updateMemberRole\<close>.\<close>

definition updateMemberRole :: "id \<Rightarrow> id \<Rightarrow> Role \<Rightarrow> store \<Rightarrow> HouseMember outcome" where
  "updateMemberRole houseId targetUserId newRole s =
     (case houseMember_findUnique s targetUserId houseId of
        None \<Rightarrow> (s, Inl (NotFoundError ''User is not a member of this house''))
      | Some targetMember \<Rightarrow>
          if m_role targetMember = OWNER \<and> newRole \<noteq> OWNER \<and> ownerCount s houseId \<le> 1
          then (s, Inl (UnprocessableEntityError ''Cannot demote the last owner of the house''))
          else houseMember_update_role targetUserId houseId newRole s)"


section \<open>Database client calls on tasks\<close>

text \<open>
  A task as the queries return it under \<open>include: { assignees: ... }\<close>: the row and
  its assignment rows.
\<close>

record TaskWithAssignees =
  task :: Task
  assignees :: "TaskAssignee list"

definition include_assignees :: "store \<Rightarrow> Task \<Rightarrow> TaskWithAssignees" where
  "include_assignees s t =
     \<lparr>task = t, assignees = filter (\<lambda>a. a_taskId a = t_id t) (task_assignees s)\<rparr>"

text \<open>\<open>tx.task.findUnique\<close> on the primary key, with the assignees included.\<close>

definition task_findUnique :: "store \<Rightarrow> id \<Rightarrow> TaskWithAssignees option" where
  "task_findUnique s taskId =
     map_option (include_assignees s) (find (\<lambda>t. t_id t = taskId) (tasks s))"

text \<open>
  A foreign key on an optional column: NULL refers to nothing, any other value has to be
  a key of the referenced table.
\<close>

definition category_fk_ok :: "store \<Rightarrow> id option \<Rightarrow> bool" where
  "category_fk_ok s c = (case c of None \<Rightarrow> True | Some cid \<Rightarrow> cid \<in> set (map c_id (categories s)))"

text \<open>
  \<open>tx.task.create\<close>: status and \<open>completedAt\<close> take their column defaults; the
  primary key and the three foreign keys of \<open>tasks\<close> are checked.
\<close>

definition task_create ::
  "id \<Rightarrow> timestamp \<Rightarrow> string \<Rightarrow> string option \<Rightarrow> TaskPriority \<Rightarrow> timestamp option \<Rightarrow> id
     \<Rightarrow> id option \<Rightarrow> id \<Rightarrow> store \<Rightarrow> TaskWithAssignees outcome" where
  "task_create newId now title description priority dueDate houseId categoryId createdById s =
     (if newId \<in> set (map t_id (tasks s)) then (s, Inl (PrismaError ''tasks_pkey''))
      else if houseId \<notin> set (map h_id (houses s))
        then (s, Inl (PrismaError ''tasks_houseId_fkey''))
      else if \<not> category_fk_ok s categoryId
        then (s, Inl (PrismaError ''tasks_categoryId_fkey''))
      else if createdById \<notin> set (map m_id (house_members s))
        then (s, Inl (PrismaError ''tasks_createdById_fkey''))
      else
        (let t = \<lparr>t_id = newId, t_title = title, t_description = description,
                   t_status = PENDING, t_priority = priority, t_dueDate = dueDate,
                   t_completedAt = None, t_createdAt = now, t_houseId = houseId,
                   t_categoryId = categoryId, t_createdById = createdById\<rparr>;
             s' = s\<lparr>tasks := tasks s @ [t]\<rparr>
         in (s', Inr (include_assignees s' t))))"

text \<open>
  \<open>prisma.task.update\<close> on the primary key: \<open>change\<close> is the effect of the
  \<open>data\<close> object on the row. The foreign key of \<open>categoryId\<close> is checked when the
  column changes.
\<close>

definition task_update :: "id \<Rightarrow> (Task \<Rightarrow> Task) \<Rightarrow> store \<Rightarrow> TaskWithAssignees outcome" where
  "task_update taskId change s =
     (case find (\<lambda>t. t_id t = taskId) (tasks s) of
        None \<Rightarrow> (s, Inl (PrismaError ''P2025''))
      | Some t \<Rightarrow>
          if t_categoryId (change t) \<noteq> t_categoryId t
             \<and> \<not> category_fk_ok s (t_categoryId (change t))
          then (s, Inl (PrismaError ''tasks_categoryId_fkey''))
          else
            (let s' = s\<lparr>tasks := map (\<lambda>x. if t_id x = taskId then change x else x) (tasks s)\<rparr>
             in (s', Inr (include_assignees s' (change t)))))"

text \<open>
  \<open>prisma.task.delete\<close> on the primary key; \<open>task_assignees.taskId\<close> is
  ON DELETE CASCADE.
\<close>

definition task_delete :: "id \<Rightarrow> store \<Rightarrow> Task outcome" where
  "task_delete taskId s =
     (case find (\<lambda>t. t_id t = taskId) (tasks s) of
        None \<Rightarrow> (s, Inl (PrismaError ''P2025''))
      | Some t \<Rightarrow>
          (s\<lparr>tasks := filter (\<lambda>x. t_id x \<noteq> taskId) (tasks s),
              task_assignees := filter (\<lambda>a. a_taskId a \<noteq> taskId) (task_assignees s)\<rparr>,
           Inr t))"

text \<open>\<open>tx.taskAssignee.deleteMany\<close> with \<open>where: { taskId }\<close>; returns the count.\<close>

definition taskAssignee_deleteMany :: "id \<Rightarrow> store \<Rightarrow> nat outcome" where
  "taskAssignee_deleteMany taskId s =
     (s\<lparr>task_assignees := filter (\<lambda>a. a_taskId a \<noteq> taskId) (task_assignees s)\<rparr>,
      Inr (length (filter (\<lambda>a. a_taskId a = taskId) (task_assignees s))))"

text \<open>
  \<open>tx.taskAssignee.createMany\<close>: one INSERT of all rows, refused as a whole when a row
  breaks the unique index on (taskId, houseMemberId) or one of the two foreign keys.
\<close>

definition assignee_key :: "TaskAssignee \<Rightarrow> id \<times> id" where
  "assignee_key a = (a_taskId a, a_houseMemberId a)"

definition taskAssignee_createMany :: "TaskAssignee list \<Rightarrow> store \<Rightarrow> nat outcome" where
  "taskAssignee_createMany rows s =
     (if \<not> distinct (map assignee_key rows)
         \<or> list_ex (\<lambda>a. assignee_key a \<in> set (map assignee_key (task_assignees s))) rows
        then (s, Inl (PrismaError ''task_assignees_taskId_houseMemberId_key''))
      else if \<not> list_all (\<lambda>a. a_taskId a \<in> set (map t_id (tasks s))) rows
        then (s, Inl (PrismaError ''task_assignees_taskId_fkey''))
      else if \<not> list_all (\<lambda>a. a_houseMemberId a \<in> set (map m_id (house_members s))) rows
        then (s, Inl (PrismaError ''task_assignees_houseMemberId_fkey''))
      else (s\<lparr>task_assignees := task_assignees s @ rows\<rparr>, Inr (length rows)))"

text \<open>
  \<open>prisma.houseMember.findMany\<close> with \<open>where: { id: { in: assigneeIds }, houseId }\<close>.
\<close>

definition validAssignees :: "store \<Rightarrow> id \<Rightarrow> id list \<Rightarrow> HouseMember list" where
  "validAssignees s houseId assigneeIds =
     filter (\<lambda>m. m_id m \<in> set assigneeIds \<and> m_houseId m = houseId) (house_members s)"

text \<open>\<open>prisma.category.findUnique\<close> on the primary key.\<close>

definition category_findUnique :: "store \<Rightarrow> id \<Rightarrow> Category option" where
  "category_findUnique s categoryId = find (\<lambda>c. c_id c = categoryId) (categories s)"

text \<open>
  The check both \<open>createTask\<close> and \<open>updateTask\<close> make on a category id:
  \<open>!category || category.houseId !== houseId\<close>.
\<close>

definition category_foreign :: "store \<Rightarrow> id \<Rightarrow> id \<Rightarrow> bool" where
  "category_foreign s houseId categoryId =
     (case category_findUnique s categoryId of
        None \<Rightarrow> True
      | Some category \<Rightarrow> c_houseId category \<noteq> houseId)"

section \<open>JavaScript values and the environment\<close>

text \<open>
  A property of an input object: absent (\<open>undefined\<close>), \<open>null\<close>, or a value. The
  TypeScript types of the inputs exclude \<open>null\<close>, the run time does not.
\<close>

datatype 'a js = Undefined | Null | Val 'a

text \<open>Truthiness of a string property: \<open>undefined\<close>, \<open>null\<close> and \<open>""\<close> are falsy.\<close>

fun truthy :: "string js \<Rightarrow> bool" where
  "truthy (Val v) = (v \<noteq> [])"
| "truthy _ = False"

text \<open>
  What the code takes from the platform and from zod: \<open>new Date(string)\<close>
  (\<open>None\<close> is an Invalid Date), \<open>parseInt(string)\<close> (\<open>None\<close> is NaN), and the
  formats \<open>.uuid()\<close> and \<open>.datetime()\<close> accept.
\<close>

record js_env =
  js_Date :: "string \<Rightarrow> timestamp option"
  js_parseInt :: "string \<Rightarrow> int option"
  zod_uuid :: "string \<Rightarrow> bool"
  zod_datetime :: "string \<Rightarrow> bool"


text \<open>An optional property handed to the database client: \<open>undefined\<close> and \<open>null\<close> both store NULL.\<close>

fun js_to_option :: "'a js \<Rightarrow> 'a option" where
  "js_to_option (Val v) = Some v"
| "js_to_option _ = None"

text \<open>
  \<open>data.dueDate ? new Date(data.dueDate) : null\<close>, as the database client takes it: an
  Invalid Date is refused by the client.
\<close>

fun dueDate_arg :: "js_env \<Rightarrow> string js \<Rightarrow> error + timestamp option" where
  "dueDate_arg env (Val v) =
     (if v = [] then Inr None
      else (case js_Date env v of
              None \<Rightarrow> Inl (PrismaError ''Invalid Date'')
            | Some d \<Rightarrow> Inr (Some d)))"
| "dueDate_arg env _ = Inr None"

section \<open>TaskService (modules/tasks/tasks.service.ts)\<close>

record CreateTaskInput =
  cti_title :: string
  cti_description :: "string js"
  cti_priority :: TaskPriority
  cti_dueDate :: "string js"
  cti_categoryId :: "string js"
  cti_assigneeIds :: "id list js"

record UpdateTaskInput =
  uti_title :: "string js"
  uti_description :: "string js"
  uti_priority :: "TaskPriority js"
  uti_dueDate :: "string js"
  uti_categoryId :: "string js"

text \<open>
  The check on the assignees shared by \<open>createTask\<close> and \<open>updateTaskAssignees\<close>: the
  number of members found differs from the number of ids given.
\<close>

definition assignees_invalid :: "store \<Rightarrow> id \<Rightarrow> id list \<Rightarrow> bool" where
  "assignees_invalid s houseId assigneeIds =
     (length (validAssignees s houseId assigneeIds) \<noteq> length assigneeIds)"

text \<open>\<open>TaskService.createTask\<close>: the callback of the transaction, then the method.\<close>

definition createTask_body ::
  "id \<Rightarrow> timestamp \<Rightarrow> js_env \<Rightarrow> id \<Rightarrow> id \<Rightarrow> CreateTaskInput \<Rightarrow> store
     \<Rightarrow> TaskWithAssignees option outcome" where
  "createTask_body newId now env houseId createdById data tx =
     (case dueDate_arg env (cti_dueDate data) of
        Inl e \<Rightarrow> (tx, Inl e)
      | Inr dueDate \<Rightarrow>
          (case task_create newId now (cti_title data) (js_to_option (cti_description data))
                  (cti_priority data) dueDate houseId (js_to_option (cti_categoryId data))
                  createdById tx of
             (tx1, Inl e) \<Rightarrow> (tx1, Inl e)
           | (tx1, Inr created) \<Rightarrow>
               (case cti_assigneeIds data of
                  Val assigneeIds \<Rightarrow>
                    if assigneeIds \<noteq> [] then
                      (case taskAssignee_createMany
                              (map (\<lambda>assigneeId. \<lparr>a_taskId = t_id (task created),
                                                   a_houseMemberId = assigneeId\<rparr>) assigneeIds)
                              tx1 of
                         (tx2, Inl e) \<Rightarrow> (tx2, Inl e)
                       | (tx2, Inr _) \<Rightarrow> (tx2, Inr (task_findUnique tx2 (t_id (task created)))))
                    else (tx1, Inr (Some created))
                | _ \<Rightarrow> (tx1, Inr (Some created)))))"

definition createTask ::
  "id \<Rightarrow> timestamp \<Rightarrow> js_env \<Rightarrow> id \<Rightarrow> id \<Rightarrow> CreateTaskInput \<Rightarrow> store
     \<Rightarrow> TaskWithAssignees option outcome" where
  "createTask newId now env houseId createdById data s =
     (if (case cti_assigneeIds data of
            Val assigneeIds \<Rightarrow> assigneeIds \<noteq> [] \<and> assignees_invalid s houseId assigneeIds
          | _ \<Rightarrow> False)
      then (s, Inl (UnprocessableEntityError ''Some assignees are not members of this house''))
      else if (case cti_categoryId data of
                 Val categoryId \<Rightarrow> categoryId \<noteq> [] \<and> category_foreign s houseId categoryId
               | _ \<Rightarrow> False)
      then (s, Inl (UnprocessableEntityError ''Category does not belong to this house''))
      else transaction (createTask_body newId now env houseId createdById data) s)"

text \<open>\<open>TaskService.getTaskById\<close>: \<open>findFirst\<close> on id and house.\<close>

definition getTaskById :: "store \<Rightarrow> id \<Rightarrow> id \<Rightarrow> error + TaskWithAssignees" where
  "getTaskById s taskId houseId =
     (case find (\<lambda>t. t_id t = taskId \<and> t_houseId t = houseId) (tasks s) of
        None \<Rightarrow> Inl (NotFoundError ''Task not found'')
      | Some t \<Rightarrow> Inr (include_assignees s t))"

text \<open>\<open>TaskService.canUserModifyTask\<close>.\<close>

definition canUserModifyTask :: "TaskWithAssignees \<Rightarrow> id \<Rightarrow> bool" where
  "canUserModifyTask tk currentMemberId =
     (if t_createdById (task tk) = currentMemberId then True
      else if list_ex (\<lambda>assignment. a_houseMemberId assignment = currentMemberId) (assignees tk)
        then True
      else False)"

text \<open>
  The \<open>data\<close> object \<open>updateTask\<close> builds, as a change of the row: a spread
  \<open>...(c && { k: v })\<close> sets column \<open>k\<close> when \<open>c\<close> is truthy and adds nothing
  otherwise.
\<close>

definition updateTask_data :: "UpdateTaskInput \<Rightarrow> timestamp option \<Rightarrow> Task \<Rightarrow> Task" where
  "updateTask_data data dueDate t =
     (let t1 = (if truthy (uti_title data)
                then (case uti_title data of Val v \<Rightarrow> t\<lparr>t_title := v\<rparr> | _ \<Rightarrow> t) else t);
          t2 = (if uti_description data \<noteq> Undefined
                then t1\<lparr>t_description := js_to_option (uti_description data)\<rparr> else t1);
          t3 = (case uti_priority data of Val p \<Rightarrow> t2\<lparr>t_priority := p\<rparr> | _ \<Rightarrow> t2);
          t4 = (if uti_dueDate data \<noteq> Undefined then t3\<lparr>t_dueDate := dueDate\<rparr> else t3);
          t5 = (if uti_categoryId data \<noteq> Undefined
                then t4\<lparr>t_categoryId := js_to_option (uti_categoryId data)\<rparr> else t4)
      in t5)"

text \<open>\<open>TaskService.updateTask\<close>.\<close>

definition updateTask ::
  "js_env \<Rightarrow> id \<Rightarrow> id \<Rightarrow> id \<Rightarrow> UpdateTaskInput \<Rightarrow> store \<Rightarrow> TaskWithAssignees outcome" where
  "updateTask env taskId houseId currentMemberId data s =
     (case getTaskById s taskId houseId of
        Inl e \<Rightarrow> (s, Inl e)
      | Inr tk \<Rightarrow>
          if \<not> canUserModifyTask tk currentMemberId
          then (s, Inl (ForbiddenError
                  ''Only task creator, assignees, or house owner can update this task''))
          else if (case uti_categoryId data of
                     Val categoryId \<Rightarrow> categoryId \<noteq> [] \<and> category_foreign s houseId categoryId
                   | _ \<Rightarrow> False)
          then (s, Inl (UnprocessableEntityError ''Category does not belong to this house''))
          else
            (case dueDate_arg env (uti_dueDate data) of
               Inl e \<Rightarrow> (s, Inl e)
             | Inr dueDate \<Rightarrow> task_update taskId (updateTask_data data dueDate) s))"

text \<open>
  \<open>TaskService.updateTaskStatus\<close>: its \<open>updateData\<close> object holds the status, and
  \<open>completedAt\<close> as the two branches set it.
\<close>

definition updateTaskStatus_data :: "timestamp \<Rightarrow> TaskStatus \<Rightarrow> Task \<Rightarrow> Task" where
  "updateTaskStatus_data now status t =
     (if status = COMPLETED then t\<lparr>t_status := status, t_completedAt := Some now\<rparr>
      else if status = PENDING then t\<lparr>t_status := status, t_completedAt := None\<rparr>
      else t\<lparr>t_status := status\<rparr>)"

definition updateTaskStatus ::
  "timestamp \<Rightarrow> id \<Rightarrow> id \<Rightarrow> id \<Rightarrow> TaskStatus \<Rightarrow> store \<Rightarrow> TaskWithAssignees outcome" where
  "updateTaskStatus now taskId houseId currentMemberId status s =
     (case getTaskById s taskId houseId of
        Inl e \<Rightarrow> (s, Inl e)
      | Inr tk \<Rightarrow>
          if \<not> canUserModifyTask tk currentMemberId
          then (s, Inl (ForbiddenError
                  ''Only task creator, assignees, or house owner can update task status''))
          else task_update taskId (updateTaskStatus_data now status) s)"

text \<open>\<open>TaskService.updateTaskAssignees\<close>: the callback of the transaction, then the method.\<close>

definition updateTaskAssignees_body ::
  "id \<Rightarrow> id list \<Rightarrow> store \<Rightarrow> TaskWithAssignees option outcome" where
  "updateTaskAssignees_body taskId assigneeIds tx =
     (case taskAssignee_deleteMany taskId tx of
        (tx1, Inl e) \<Rightarrow> (tx1, Inl e)
      | (tx1, Inr _) \<Rightarrow>
          if assigneeIds \<noteq> [] then
            (case taskAssignee_createMany
                    (map (\<lambda>assigneeId. \<lparr>a_taskId = taskId, a_houseMemberId = assigneeId\<rparr>)
                       assigneeIds) tx1 of
               (tx2, Inl e) \<Rightarrow> (tx2, Inl e)
             | (tx2, Inr _) \<Rightarrow> (tx2, Inr (task_findUnique tx2 taskId)))
          else (tx1, Inr (task_findUnique tx1 taskId)))"

definition updateTaskAssignees ::
  "id \<Rightarrow> id \<Rightarrow> id \<Rightarrow> id list \<Rightarrow> store \<Rightarrow> TaskWithAssignees option outcome" where
  "updateTaskAssignees taskId houseId currentMemberId assigneeIds s =
     (case getTaskById s taskId houseId of
        Inl e \<Rightarrow> (s, Inl e)
      | Inr tk \<Rightarrow>
          if \<not> canUserModifyTask tk currentMemberId
          then (s, Inl (ForbiddenError
                  ''Only task creator, assignees, or house owner can update task assignees''))
          else if assigneeIds \<noteq> [] \<and> assignees_invalid s houseId assigneeIds
          then (s, Inl (UnprocessableEntityError ''Some assignees are not members of this house''))
          else transaction (updateTaskAssignees_body taskId assigneeIds) s)"

text \<open>
  \<open>TaskService.deleteTask\<close>: \<open>currentMember?.role === "OWNER"\<close> is false when no
  member has the id.
\<close>

definition deleteTask :: "id \<Rightarrow> id \<Rightarrow> id \<Rightarrow> store \<Rightarrow> success outcome" where
  "deleteTask taskId houseId currentMemberId s =
     (case getTaskById s taskId houseId of
        Inl e \<Rightarrow> (s, Inl e)
      | Inr tk \<Rightarrow>
          (let currentMember = houseMember_findUnique_id s currentMemberId;
               canDelete = (t_createdById (task tk) = currentMemberId
                            \<or> map_option m_role currentMember = Some OWNER)
           in if \<not> canDelete
              then (s, Inl (ForbiddenError
                      ''Only task creator or house owner can delete this task''))
              else (case task_delete taskId s of
                      (s', Inl e) \<Rightarrow> (s', Inl e)
                    | (s', Inr _) \<Rightarrow> (s', Inr Success))))"


subsection \<open>Listing\<close>

text \<open>
  The output type of \<open>taskFilterSchema\<close>: every property is a value or
  \<open>undefined\<close> (\<open>None\<close>).
\<close>

record TaskFilterInput =
  tfi_status :: "TaskStatus option"
  tfi_priority :: "TaskPriority option"
  tfi_assignedToMe :: "bool option"
  tfi_createdByMe :: "bool option"
  tfi_categoryId :: "string option"
  tfi_overdue :: "bool option"
  tfi_page :: "int option"
  tfi_limit :: "int option"

record Pagination =
  p_page :: int
  p_limit :: int
  p_total :: int
  p_pages :: "int option"

record TaskPage =
  tp_tasks :: "TaskWithAssignees list"
  tp_pagination :: Pagination

text \<open>
  The \<open>where\<close> object of \<open>getHouseTasks\<close> as a predicate on rows. The spread of
  \<open>overdue\<close> comes after that of \<open>status\<close> and overwrites its \<open>status\<close> key; a
  NULL due date is not less than any date.
\<close>

definition where_clause ::
  "store \<Rightarrow> timestamp \<Rightarrow> id \<Rightarrow> HouseMember \<Rightarrow> TaskFilterInput \<Rightarrow> Task \<Rightarrow> bool" where
  "where_clause s now houseId currentMember filters t =
     (t_houseId t = houseId
      \<and> (if tfi_overdue filters = Some True
         then t_status t = PENDING \<and> (case t_dueDate t of None \<Rightarrow> False | Some d \<Rightarrow> d < now)
         else (case tfi_status filters of None \<Rightarrow> True | Some status \<Rightarrow> t_status t = status))
      \<and> (case tfi_priority filters of None \<Rightarrow> True | Some priority \<Rightarrow> t_priority t = priority)
      \<and> (case tfi_categoryId filters of
            None \<Rightarrow> True
          | Some categoryId \<Rightarrow> if categoryId = [] then True else t_categoryId t = Some categoryId)
      \<and> (if tfi_createdByMe filters = Some True then t_createdById t = m_id currentMember
         else True)
      \<and> (if tfi_assignedToMe filters = Some True
         then list_ex (\<lambda>a. a_taskId a = t_id t \<and> a_houseMemberId a = m_id currentMember)
                (task_assignees s)
         else True))"

text \<open>
  \<open>orderBy: [{ priority: "desc" }, { dueDate: "asc" }, { createdAt: "desc" }]\<close> as a
  sort key under the lexicographic order: the enum orders LOW, MEDIUM, HIGH as declared,
  and an ascending sort puts NULL last. Rows with equal keys keep the order of the table.
\<close>

definition orderBy_key :: "Task \<Rightarrow> nat \<times> (nat \<times> int) \<times> int" where
  "orderBy_key t =
     (case t_priority t of HIGH \<Rightarrow> 0 | MEDIUM \<Rightarrow> 1 | LOW \<Rightarrow> 2,
      case t_dueDate t of Some d \<Rightarrow> (0, d) | None \<Rightarrow> (1, 0),
      - t_createdAt t)"

text \<open>
  \<open>skip\<close> and \<open>take\<close> of \<open>findMany\<close>: a negative \<open>skip\<close> is refused by the
  client, a negative \<open>take\<close> counts from the end of the ordered rows.
\<close>

definition skip_take :: "int \<Rightarrow> int \<Rightarrow> 'a list \<Rightarrow> error + 'a list" where
  "skip_take skip tk rows =
     (if skip < 0 then Inl (PrismaError ''skip'')
      else if 0 \<le> tk then Inr (take (nat tk) (drop (nat skip) rows))
      else Inr (rev (take (nat (- tk)) (drop (nat skip) (rev rows)))))"

text \<open>
  \<open>Math.ceil(total / limit)\<close> on integers; a division by zero gives Infinity or NaN,
  which is \<open>None\<close>.
\<close>

definition Math_ceil_div :: "int \<Rightarrow> int \<Rightarrow> int option" where
  "Math_ceil_div n limit = (if limit = 0 then None else Some (- ((- n) div limit)))"

text \<open>\<open>TaskService.getHouseTasks\<close>.\<close>

definition getHouseTasks ::
  "timestamp \<Rightarrow> id \<Rightarrow> id \<Rightarrow> TaskFilterInput \<Rightarrow> store \<Rightarrow> error + TaskPage" where
  "getHouseTasks now houseId currentUserId filters s =
     (let page = (case tfi_page filters of None \<Rightarrow> 1 | Some p \<Rightarrow> p);
          limit = (case tfi_limit filters of None \<Rightarrow> 20 | Some l \<Rightarrow> l)
      in case houseMember_findUnique s currentUserId houseId of
           None \<Rightarrow> Inl (ForbiddenError ''You are not a member of this house'')
         | Some currentMember \<Rightarrow>
             (let matching = filter (where_clause s now houseId currentMember filters) (tasks s);
                  skip = (page - 1) * limit;
                  total_count = int (length matching)
              in case skip_take skip limit (sort_key orderBy_key matching) of
                   Inl e \<Rightarrow> Inl e
                 | Inr rows \<Rightarrow>
                     Inr \<lparr>tp_tasks = map (include_assignees s) rows,
                          tp_pagination = \<lparr>p_page = page, p_limit = limit, p_total = total_count,
                                           p_pages = Math_ceil_div total_count limit\<rparr>\<rparr>))"

section \<open>Request schemas (modules/tasks/tasks.schema.ts)\<close>

text \<open>
  A value of a JSON body or of a query string. A property of the request is
  \<open>json option\<close>: \<open>None\<close> when the key is absent.
\<close>

datatype json = JNull | JBool bool | JNumber int | JString string | JArray "json list"

text \<open>\<open>String.prototype.trim\<close> on the ASCII white space.\<close>

definition is_space :: "char \<Rightarrow> bool" where
  "is_space c = (c \<in> set [CHR '' '', CHR 0x09, CHR 0x0A, CHR 0x0B, CHR 0x0C, CHR 0x0D])"

definition trim :: "string \<Rightarrow> string" where
  "trim v = rev (dropWhile is_space (rev (dropWhile is_space v)))"

text \<open>
  \<open>.optional()\<close>: an absent key parses to \<open>undefined\<close>, anything else goes to the
  inner schema. A schema reports the first issue it finds.
\<close>

definition optional :: "(json \<Rightarrow> error + 'a) \<Rightarrow> json option \<Rightarrow> error + 'a js" where
  "optional schema j =
     (case j of
        None \<Rightarrow> Inr Undefined
      | Some v \<Rightarrow> (case schema v of Inl e \<Rightarrow> Inl e | Inr x \<Rightarrow> Inr (Val x)))"

fun taskStatusSchema :: "json \<Rightarrow> error + TaskStatus" where
  "taskStatusSchema (JString v) =
     (if v = ''PENDING'' then Inr PENDING else if v = ''COMPLETED'' then Inr COMPLETED
      else Inl (ZodError ''Invalid enum value''))"
| "taskStatusSchema _ = Inl (ZodError ''Invalid enum value'')"

fun taskPrioritySchema :: "json \<Rightarrow> error + TaskPriority" where
  "taskPrioritySchema (JString v) =
     (if v = ''LOW'' then Inr LOW else if v = ''MEDIUM'' then Inr MEDIUM
      else if v = ''HIGH'' then Inr HIGH else Inl (ZodError ''Invalid enum value''))"
| "taskPrioritySchema _ = Inl (ZodError ''Invalid enum value'')"

text \<open>\<open>taskTitleSchema\<close>: \<open>z.string().min(1).max(100).trim()\<close>, the checks in this order.\<close>

fun taskTitleSchema :: "json \<Rightarrow> error + string" where
  "taskTitleSchema (JString v) =
     (if length v < 1 then Inl (ZodError ''Task title is required'')
      else if 100 < length v then Inl (ZodError ''Task title must be at most 100 characters'')
      else Inr (trim v))"
| "taskTitleSchema _ = Inl (ZodError ''Expected string'')"

text \<open>\<open>taskDescriptionSchema\<close> without its \<open>.optional()\<close>.\<close>

fun taskDescriptionSchema :: "json \<Rightarrow> error + string" where
  "taskDescriptionSchema (JString v) =
     (if 500 < length v
      then Inl (ZodError ''Task description must be at most 500 characters'')
      else Inr (trim v))"
| "taskDescriptionSchema _ = Inl (ZodError ''Expected string'')"

text \<open>
  \<open>dueDateSchema\<close> without its \<open>.optional()\<close>: the format, then
  \<open>new Date(date) > new Date()\<close>, which is false for an Invalid Date.
\<close>

fun dueDateSchema :: "js_env \<Rightarrow> timestamp \<Rightarrow> json \<Rightarrow> error + string" where
  "dueDateSchema env now (JString v) =
     (if \<not> zod_datetime env v then Inl (ZodError ''Invalid date format'')
      else if (case js_Date env v of None \<Rightarrow> False | Some d \<Rightarrow> now < d) then Inr v
      else Inl (ZodError ''Due date must be in the future''))"
| "dueDateSchema env now _ = Inl (ZodError ''Expected string'')"

text \<open>\<open>z.string().uuid({ message })\<close>.\<close>

fun uuidSchema :: "js_env \<Rightarrow> string \<Rightarrow> json \<Rightarrow> error + string" where
  "uuidSchema env message (JString v) =
     (if zod_uuid env v then Inr v else Inl (ZodError message))"
| "uuidSchema env message _ = Inl (ZodError ''Expected string'')"

text \<open>The elements of an array, each parsed by the element schema.\<close>

fun parse_elements :: "(json \<Rightarrow> error + 'a) \<Rightarrow> json list \<Rightarrow> error + 'a list" where
  "parse_elements schema [] = Inr []"
| "parse_elements schema (v # vs) =
     (case schema v of
        Inl e \<Rightarrow> Inl e
      | Inr x \<Rightarrow> (case parse_elements schema vs of Inl e \<Rightarrow> Inl e | Inr xs \<Rightarrow> Inr (x # xs)))"

text \<open>\<open>assigneeIdsSchema\<close> without its \<open>.optional()\<close>.\<close>

fun assigneeIdsSchema :: "js_env \<Rightarrow> json \<Rightarrow> error + id list" where
  "assigneeIdsSchema env (JArray vs) =
     (if 10 < length vs then Inl (ZodError ''Cannot assign more than 10 members to a task'')
      else parse_elements (uuidSchema env ''Invalid assignee ID'') vs)"
| "assigneeIdsSchema env _ = Inl (ZodError ''Expected array'')"

record UpdateTaskBody =
  utb_title :: "json option"
  utb_description :: "json option"
  utb_priority :: "json option"
  utb_dueDate :: "json option"
  utb_categoryId :: "json option"

text \<open>\<open>updateTaskSchema.parse\<close>.\<close>

definition updateTaskSchema ::
  "js_env \<Rightarrow> timestamp \<Rightarrow> UpdateTaskBody \<Rightarrow> error + UpdateTaskInput" where
  "updateTaskSchema env now body =
     (case optional taskTitleSchema (utb_title body) of
        Inl e \<Rightarrow> Inl e
      | Inr title \<Rightarrow>
     (case optional taskDescriptionSchema (utb_description body) of
        Inl e \<Rightarrow> Inl e
      | Inr description \<Rightarrow>
     (case optional taskPrioritySchema (utb_priority body) of
        Inl e \<Rightarrow> Inl e
      | Inr priority \<Rightarrow>
     (case optional (dueDateSchema env now) (utb_dueDate body) of
        Inl e \<Rightarrow> Inl e
      | Inr dueDate \<Rightarrow>
     (case optional (uuidSchema env ''Invalid category ID'') (utb_categoryId body) of
        Inl e \<Rightarrow> Inl e
      | Inr categoryId \<Rightarrow>
          Inr \<lparr>uti_title = title, uti_description = description, uti_priority = priority,
               uti_dueDate = dueDate, uti_categoryId = categoryId\<rparr>)))))"

text \<open>
  \<open>updateTaskAssigneesSchema.parse\<close>, on the \<open>assigneeIds\<close> property of the body:
  \<open>.default([])\<close> replaces an absent key by the empty array.
\<close>

definition updateTaskAssigneesSchema :: "js_env \<Rightarrow> json option \<Rightarrow> error + id list" where
  "updateTaskAssigneesSchema env assigneeIds =
     (case assigneeIds of
        None \<Rightarrow> Inr []
      | Some v \<Rightarrow> assigneeIdsSchema env v)"

text \<open>
  The transforms of \<open>page\<close> and \<open>limit\<close> in \<open>taskFilterSchema\<close>:
  \<open>parseInt(val) || 1\<close> and \<open>Math.min(parseInt(val) || 20, 100)\<close>; NaN and 0 are falsy.
\<close>

definition or_default :: "int option \<Rightarrow> int \<Rightarrow> int" where
  "or_default n d = (case n of None \<Rightarrow> d | Some k \<Rightarrow> if k = 0 then d else k)"

fun pageSchema :: "js_env \<Rightarrow> json \<Rightarrow> error + int" where
  "pageSchema env (JString val) = Inr (or_default (js_parseInt env val) 1)"
| "pageSchema env _ = Inl (ZodError ''Expected string'')"

fun limitSchema :: "js_env \<Rightarrow> json \<Rightarrow> error + int" where
  "limitSchema env (JString val) = Inr (min (or_default (js_parseInt env val) 20) 100)"
| "limitSchema env _ = Inl (ZodError ''Expected string'')"

text \<open>\<open>z.string().transform(val => val === "true")\<close>.\<close>

fun trueSchema :: "json \<Rightarrow> error + bool" where
  "trueSchema (JString val) = Inr (val = ''true'')"
| "trueSchema _ = Inl (ZodError ''Expected string'')"

record TaskQuery =
  q_status :: "json option"
  q_priority :: "json option"
  q_assignedToMe :: "json option"
  q_createdByMe :: "json option"
  q_categoryId :: "json option"
  q_overdue :: "json option"
  q_page :: "json option"
  q_limit :: "json option"

text \<open>\<open>taskFilterSchema.parse\<close>.\<close>

definition taskFilterSchema :: "js_env \<Rightarrow> TaskQuery \<Rightarrow> error + TaskFilterInput" where
  "taskFilterSchema env query =
     (case optional taskStatusSchema (q_status query) of
        Inl e \<Rightarrow> Inl e
      | Inr status \<Rightarrow>
     (case optional taskPrioritySchema (q_priority query) of
        Inl e \<Rightarrow> Inl e
      | Inr priority \<Rightarrow>
     (case optional trueSchema (q_assignedToMe query) of
        Inl e \<Rightarrow> Inl e
      | Inr assignedToMe \<Rightarrow>
     (case optional trueSchema (q_createdByMe query) of
        Inl e \<Rightarrow> Inl e
      | Inr createdByMe \<Rightarrow>
     (case optional (uuidSchema env ''Invalid category ID'') (q_categoryId query) of
        Inl e \<Rightarrow> Inl e
      | Inr categoryId \<Rightarrow>
     (case optional trueSchema (q_overdue query) of
        Inl e \<Rightarrow> Inl e
      | Inr overdue \<Rightarrow>
     (case optional (pageSchema env) (q_page query) of
        Inl e \<Rightarrow> Inl e
      | Inr page \<Rightarrow>
     (case optional (limitSchema env) (q_limit query) of
        Inl e \<Rightarrow> Inl e
      | Inr limit \<Rightarrow>
          Inr \<lparr>tfi_status = js_to_option status, tfi_priority = js_to_option priority,
               tfi_assignedToMe = js_to_option assignedToMe,
               tfi_createdByMe = js_to_option createdByMe,
               tfi_categoryId = js_to_option categoryId, tfi_overdue = js_to_option overdue,
               tfi_page = js_to_option page, tfi_limit = js_to_option limit\<rparr>))))))))"

section \<open>TaskController (modules/tasks/tasks.controller.ts)\<close>

text \<open>
  The handlers parse the route parameters and the body, then call the service with the
  id of the membership the middleware attached to the request
  (\<open>req.houseMember!.id\<close>, or \<open>req.user!.id\<close> for the listing).
\<close>

definition TaskController_updateTask ::
  "js_env \<Rightarrow> timestamp \<Rightarrow> string \<Rightarrow> string \<Rightarrow> UpdateTaskBody \<Rightarrow> id \<Rightarrow> store
     \<Rightarrow> TaskWithAssignees outcome" where
  "TaskController_updateTask env now id_param taskId_param body currentMemberId s =
     (case uuidSchema env ''Invalid house ID format'' (JString id_param) of
        Inl e \<Rightarrow> (s, Inl e)
      | Inr houseId \<Rightarrow>
     (case uuidSchema env ''Invalid task ID format'' (JString taskId_param) of
        Inl e \<Rightarrow> (s, Inl e)
      | Inr taskId \<Rightarrow>
     (case updateTaskSchema env now body of
        Inl e \<Rightarrow> (s, Inl e)
      | Inr updateData \<Rightarrow> updateTask env taskId houseId currentMemberId updateData s)))"

definition TaskController_updateTaskAssignees ::
  "js_env \<Rightarrow> string \<Rightarrow> string \<Rightarrow> json option \<Rightarrow> id \<Rightarrow> store
     \<Rightarrow> TaskWithAssignees option outcome" where
  "TaskController_updateTaskAssignees env id_param taskId_param assigneeIds currentMemberId s =
     (case uuidSchema env ''Invalid house ID format'' (JString id_param) of
        Inl e \<Rightarrow> (s, Inl e)
      | Inr houseId \<Rightarrow>
     (case uuidSchema env ''Invalid task ID format'' (JString taskId_param) of
        Inl e \<Rightarrow> (s, Inl e)
      | Inr taskId \<Rightarrow>
     (case updateTaskAssigneesSchema env assigneeIds of
        Inl e \<Rightarrow> (s, Inl e)
      | Inr assigneeData \<Rightarrow>
          updateTaskAssignees taskId houseId currentMemberId assigneeData s)))"

definition TaskController_getHouseTasks ::
  "js_env \<Rightarrow> timestamp \<Rightarrow> string \<Rightarrow> TaskQuery \<Rightarrow> id \<Rightarrow> store \<Rightarrow> error + TaskPage" where
  "TaskController_getHouseTasks env now id_param query currentUserId s =
     (case uuidSchema env ''Invalid house ID format'' (JString id_param) of
        Inl e \<Rightarrow> Inl e
      | Inr houseId \<Rightarrow>
     (case taskFilterSchema env query of
        Inl e \<Rightarrow> Inl e
      | Inr filters \<Rightarrow> getHouseTasks now houseId currentUserId filters s))"


section \<open>Notions of the specification\<close>

text \<open>The ids that resolve to a membership of the house.\<close>

definition house_member_ids :: "store \<Rightarrow> id \<Rightarrow> id set" where
  "house_member_ids s houseId =
     set (map m_id (filter (\<lambda>m. m_houseId m = houseId) (house_members s)))"

text \<open>
  The full replace of a task's assignee set: every assignment row of the task is deleted
  and one row per id of the new list is inserted; the rows of other tasks stay.
\<close>

definition full_replace :: "store \<Rightarrow> id \<Rightarrow> id list \<Rightarrow> store" where
  "full_replace s taskId L =
     s\<lparr>task_assignees := filter (\<lambda>a. a_taskId a \<noteq> taskId) (task_assignees s)
          @ map (\<lambda>assigneeId. \<lparr>a_taskId = taskId, a_houseMemberId = assigneeId\<rparr>) L\<rparr>"


section \<open>Example data\<close>

text \<open>
  A house with its owner Dad and two members; Mom created the one task and Kid is its
  only assignee.
\<close>

definition ex_owner :: HouseMember where
  "ex_owner = \<lparr>m_id = ''m1'', m_displayName = ''Dad'', m_role = OWNER, m_createdAt = 1,
               m_userId = ''u1'', m_houseId = ''h1''\<rparr>"

definition ex_creator :: HouseMember where
  "ex_creator = \<lparr>m_id = ''m2'', m_displayName = ''Mom'', m_role = MEMBER, m_createdAt = 2,
                 m_userId = ''u2'', m_houseId = ''h1''\<rparr>"

definition ex_assignee :: HouseMember where
  "ex_assignee = \<lparr>m_id = ''m3'', m_displayName = ''Kid'', m_role = MEMBER, m_createdAt = 3,
                  m_userId = ''u3'', m_houseId = ''h1''\<rparr>"

definition ex_task :: Task where
  "ex_task = \<lparr>t_id = ''t1'', t_title = ''Dishes'', t_description = Some ''old'',
              t_status = PENDING, t_priority = HIGH, t_dueDate = Some 100,
              t_completedAt = None, t_createdAt = 10, t_houseId = ''h1'',
              t_categoryId = Some ''c1'', t_createdById = ''m2''\<rparr>"

definition ex_store :: store where
  "ex_store =
     \<lparr>users = [''u1'', ''u2'', ''u3''],
      houses = [\<lparr>h_id = ''h1'', h_name = ''Home'', h_description = None\<rparr>],
      house_members = [ex_owner, ex_creator, ex_assignee],
      tasks = [ex_task],
      task_assignees = [\<lparr>a_taskId = ''t1'', a_houseMemberId = ''m3''\<rparr>],
      categories = [\<lparr>c_id = ''c1'', c_name = ''Kitchen'', c_houseId = ''h1''\<rparr>]\<rparr>"

text \<open>An environment that knows one date and the shape of a UUID.\<close>

definition is_hex :: "char \<Rightarrow> bool" where
  "is_hex c = (c \<in> set ''0123456789abcdefABCDEF'')"

definition uuid_shape :: "string \<Rightarrow> bool" where
  "uuid_shape v =
     (map (\<lambda>c. if c = CHR ''-'' then CHR ''-'' else if is_hex c then CHR ''x'' else CHR ''?'') v
        = ''xxxxxxxx-xxxx-xxxx-xxxx-xxxxxxxxxxxx'')"

definition ex_env :: js_env where
  "ex_env =
     \<lparr>js_Date = (\<lambda>v. if v = ''2030-01-01T00:00:00Z'' then Some 1893456000000 else None),
      js_parseInt = (\<lambda>v. if v = ''2'' then Some 2 else if v = ''20'' then Some 20
                          else if v = ''500'' then Some 500 else None),
      zod_uuid = uuid_shape,
      zod_datetime = (\<lambda>v. v = ''2030-01-01T00:00:00Z'')\<rparr>"

text \<open>The same task in a store whose keys are UUIDs, for requests that pass the controller.\<close>

definition ex_uuid_task :: Task where
  "ex_uuid_task = \<lparr>t_id = ''00000000-0000-4000-8000-0000000000c1'', t_title = ''Dishes'',
              t_description = Some ''old'', t_status = PENDING, t_priority = HIGH,
              t_dueDate = Some 100, t_completedAt = None, t_createdAt = 10,
              t_houseId = ''00000000-0000-4000-8000-0000000000a1'', t_categoryId = None,
              t_createdById = ''00000000-0000-4000-8000-0000000000b1''\<rparr>"

definition ex_uuid_store :: store where
  "ex_uuid_store =
     \<lparr>users = [''00000000-0000-4000-8000-0000000000d1''],
      houses = [\<lparr>h_id = ''00000000-0000-4000-8000-0000000000a1'', h_name = ''Home'',
                 h_description = None\<rparr>],
      house_members = [\<lparr>m_id = ''00000000-0000-4000-8000-0000000000b1'',
                        m_displayName = ''Dad'', m_role = OWNER, m_createdAt = 1,
                        m_userId = ''00000000-0000-4000-8000-0000000000d1'',
                        m_houseId = ''00000000-0000-4000-8000-0000000000a1''\<rparr>],
      tasks = [ex_uuid_task],
      task_assignees = [],
      categories = []\<rparr>"





section \<open>Properties of HouseService: the last owner, creation\<close>

lemma find_unique_key:
  "distinct (map f xs) \<Longrightarrow> m \<in> set xs \<Longrightarrow> find (\<lambda>x. f x = f m) xs = Some m"
  by (induction xs) (auto simp: image_iff)

lemma find_Some_mem: "find P xs = Some m \<Longrightarrow> m \<in> set xs \<and> P m"
  by (induction xs) (auto split: if_splits)

lemma count_filter_out_key:
  "distinct (map f xs) \<Longrightarrow> find (\<lambda>x. f x = k) xs = Some m \<Longrightarrow>
   length (filter P (filter (\<lambda>x. f x \<noteq> k) xs)) + (if P m then 1 else 0) = length (filter P xs)"
proof (induction xs)
  case Nil then show ?case by simp
next
  case (Cons a xs)
  show ?case
  proof (cases "f a = k")
    case True
    then have am: "a = m" using Cons.prems by simp
    have "\<forall>x\<in>set xs. f x \<noteq> k" using Cons.prems True by (auto simp: image_iff)
    then have "filter (\<lambda>x. f x \<noteq> k) xs = xs" by (simp add: filter_id_conv)
    then show ?thesis using True am by simp
  next
    case False
    then show ?thesis using Cons by simp
  qed
qed

lemma count_map_key:
  "distinct (map f xs) \<Longrightarrow> find (\<lambda>x. f x = k) xs = Some m \<Longrightarrow>
   length (filter P (map (\<lambda>x. if f x = k then g x else x) xs)) + (if P m then 1 else 0)
     = length (filter P xs) + (if P (g m) then 1 else 0)"
proof (induction xs)
  case Nil then show ?case by simp
next
  case (Cons a xs)
  show ?case
  proof (cases "f a = k")
    case True
    then have am: "a = m" using Cons.prems by simp
    have "\<forall>x\<in>set xs. f x \<noteq> k" using Cons.prems True by (auto simp: image_iff)
    then have "map (\<lambda>x. if f x = k then g x else x) xs = xs" by (simp add: map_idI)
    then show ?thesis using True am by simp
  next
    case False
    then show ?thesis using Cons by simp
  qed
qed


lemma key_find:
  "house_members_userId_houseId_key s \<Longrightarrow> M \<in> set (house_members s) \<Longrightarrow>
   houseMember_findUnique s (m_userId M) (m_houseId M) = Some M"
  using find_unique_key [of "\<lambda>m. (m_userId m, m_houseId m)" "house_members s" M]
  by (simp add: house_members_userId_houseId_key_def houseMember_findUnique_def)

lemma sole_owner_facts:
  assumes "filter (\<lambda>m. m_houseId m = houseId \<and> m_role m = OWNER) (house_members s) = [M]"
  shows "M \<in> set (house_members s)" "m_houseId M = houseId" "m_role M = OWNER"
    "ownerCount s houseId = 1"
proof -
  have "M \<in> set (filter (\<lambda>m. m_houseId m = houseId \<and> m_role m = OWNER) (house_members s))"
    using assms by simp
  then show "M \<in> set (house_members s)" "m_houseId M = houseId" "m_role M = OWNER" by auto
  show "ownerCount s houseId = 1" using assms by (simp add: ownerCount_def)
qed

lemma removeMember_ownerCount:
  assumes key: "house_members_userId_houseId_key s" and one: "1 \<le> ownerCount s h"
  shows "1 \<le> ownerCount (fst (removeMember houseId u s)) h"
proof (cases "houseMember_findUnique s u houseId")
  case None
  then show ?thesis using one by (simp add: removeMember_def)
next
  case (Some m)
  let ?P = "\<lambda>m. m_houseId m = h \<and> m_role m = OWNER"
  have fm: "find (\<lambda>x. (m_userId x, m_houseId x) = (u, houseId)) (house_members s) = Some m"
    using Some by (simp add: houseMember_findUnique_def)
  have mh: "m_houseId m = houseId" using find_Some_mem [OF fm] by simp
  have cnt: "length (filter ?P (filter (\<lambda>x. (m_userId x, m_houseId x) \<noteq> (u, houseId))
                (house_members s))) + (if ?P m then 1 else 0) = ownerCount s h"
    using count_filter_out_key [OF _ fm, of ?P] key
    by (simp add: house_members_userId_houseId_key_def ownerCount_def)
  show ?thesis
  proof (cases "m_role m = OWNER \<and> ownerCount s houseId \<le> 1")
    case True
    then show ?thesis using Some one by (simp add: removeMember_def)
  next
    case False
    show ?thesis
    proof (cases "list_ex (\<lambda>t. t_createdById t = m_id m) (tasks s)")
      case True
      then show ?thesis using Some False one
        by (simp add: removeMember_def houseMember_delete_def)
    next
      case nex: False
      have "1 \<le> length (filter ?P (filter (\<lambda>x. (m_userId x, m_houseId x) \<noteq> (u, houseId))
                (house_members s)))"
        using cnt False one mh by (cases "h = houseId") (auto split: if_splits)
      then show ?thesis using Some False nex
        by (auto simp: removeMember_def houseMember_delete_def ownerCount_def)
    qed
  qed
qed

lemma updateMemberRole_ownerCount:
  assumes key: "house_members_userId_houseId_key s" and one: "1 \<le> ownerCount s h"
  shows "1 \<le> ownerCount (fst (updateMemberRole houseId u r s)) h"
proof (cases "houseMember_findUnique s u houseId")
  case None
  then show ?thesis using one by (simp add: updateMemberRole_def)
next
  case (Some m)
  let ?P = "\<lambda>m. m_houseId m = h \<and> m_role m = OWNER"
  have fm: "find (\<lambda>x. (m_userId x, m_houseId x) = (u, houseId)) (house_members s) = Some m"
    using Some by (simp add: houseMember_findUnique_def)
  have mh: "m_houseId m = houseId" using find_Some_mem [OF fm] by simp
  have cnt: "length (filter ?P (map (\<lambda>x. if (m_userId x, m_houseId x) = (u, houseId)
                  then x\<lparr>m_role := r\<rparr> else x) (house_members s))) + (if ?P m then 1 else 0)
             = ownerCount s h + (if ?P (m\<lparr>m_role := r\<rparr>) then 1 else 0)"
    using count_map_key [OF _ fm, of ?P "\<lambda>x. x\<lparr>m_role := r\<rparr>"] key
    by (simp add: house_members_userId_houseId_key_def ownerCount_def)
  show ?thesis
  proof (cases "m_role m = OWNER \<and> r \<noteq> OWNER \<and> ownerCount s houseId \<le> 1")
    case True
    then show ?thesis using Some one by (simp add: updateMemberRole_def)
  next
    case False
    have "1 \<le> length (filter ?P (map (\<lambda>x. if (m_userId x, m_houseId x) = (u, houseId)
                  then x\<lparr>m_role := r\<rparr> else x) (house_members s)))"
      using cnt False one mh by (cases "h = houseId") (auto split: if_splits)
    then show ?thesis using Some False
      by (auto simp: updateMemberRole_def houseMember_update_role_def ownerCount_def)
  qed
qed

text \<open>
  Claim C2. In a house whose only OWNER membership is \<open>M\<close>, \<open>removeMember\<close> on
  \<open>M\<close>'s user and \<open>updateMemberRole\<close> of that user to MEMBER both fail with
  UnprocessableEntityError and leave the store as it was; and neither operation, on any
  house, user and role, takes the number of owners of a house that has one below one.
\<close>

theorem last_owner_protected:
  assumes key: "house_members_userId_houseId_key s"
    and sole: "filter (\<lambda>m. m_houseId m = houseId \<and> m_role m = OWNER) (house_members s) = [M]"
  shows "removeMember houseId (m_userId M) s =
           (s, Inl (UnprocessableEntityError ''Cannot remove the last owner of the house''))
       \<and> updateMemberRole houseId (m_userId M) MEMBER s =
           (s, Inl (UnprocessableEntityError ''Cannot demote the last owner of the house''))
       \<and> (\<forall>h' u r h. 1 \<le> ownerCount s h \<longrightarrow>
             1 \<le> ownerCount (fst (removeMember h' u s)) h
           \<and> 1 \<le> ownerCount (fst (updateMemberRole h' u r s)) h)"
proof -
  note f = sole_owner_facts [OF sole]
  have fu: "houseMember_findUnique s (m_userId M) houseId = Some M"
    using key_find [OF key f(1)] f(2) by simp
  have a: "removeMember houseId (m_userId M) s =
           (s, Inl (UnprocessableEntityError ''Cannot remove the last owner of the house''))"
    using fu f(3,4) by (simp add: removeMember_def)
  have b: "updateMemberRole houseId (m_userId M) MEMBER s =
           (s, Inl (UnprocessableEntityError ''Cannot demote the last owner of the house''))"
    using fu f(3,4) by (simp add: updateMemberRole_def)
  show ?thesis
    using a b removeMember_ownerCount [OF key] updateMemberRole_ownerCount [OF key] by blast
qed


lemma map_key_id:
  "distinct (map f xs) \<Longrightarrow> find (\<lambda>x. f x = k) xs = Some m \<Longrightarrow> g m = m \<Longrightarrow>
   map (\<lambda>x. if f x = k then g x else x) xs = xs"
proof (induction xs)
  case Nil then show ?case by simp
next
  case (Cons a xs)
  show ?case
  proof (cases "f a = k")
    case True
    then have am: "a = m" using Cons.prems by simp
    have "\<forall>x\<in>set xs. f x \<noteq> k" using Cons.prems True by (auto simp: image_iff)
    then have "map (\<lambda>x. if f x = k then g x else x) xs = xs" by (simp add: map_idI)
    then show ?thesis using True am Cons.prems by simp
  next
    case False
    then show ?thesis using Cons by simp
  qed
qed

text \<open>
  Claim C10. For every existing member-target, \<open>updateMemberRole\<close> with the new role
  OWNER succeeds whatever the number of owners: it returns the membership with role OWNER
  and leaves the store with exactly the target's row set to OWNER. When the target already
  is OWNER (the only owner included) the store is unchanged and the membership is returned
  as it was. For any new role, the last-owner refusal is the outcome exactly when the target
  is OWNER, the new role differs from OWNER and the house has at most one owner; in every
  other case the role is written and the updated membership returned.
\<close>

theorem updateMemberRole_to_OWNER:
  assumes found: "houseMember_findUnique s targetUserId houseId = Some m"
  shows "updateMemberRole houseId targetUserId OWNER s =
           (s\<lparr>house_members :=
                map (\<lambda>x. if m_userId x = targetUserId \<and> m_houseId x = houseId
                          then x\<lparr>m_role := OWNER\<rparr> else x)
                  (house_members s)\<rparr>,
            Inr (m\<lparr>m_role := OWNER\<rparr>))
       \<and> (house_members_userId_houseId_key s \<and> m_role m = OWNER \<longrightarrow>
            updateMemberRole houseId targetUserId OWNER s = (s, Inr m))
       \<and> (updateMemberRole houseId targetUserId newRole s =
             (s, Inl (UnprocessableEntityError ''Cannot demote the last owner of the house''))
           \<longleftrightarrow> m_role m = OWNER \<and> newRole \<noteq> OWNER \<and> ownerCount s houseId \<le> 1)
       \<and> (\<not> (m_role m = OWNER \<and> newRole \<noteq> OWNER \<and> ownerCount s houseId \<le> 1) \<longrightarrow>
            updateMemberRole houseId targetUserId newRole s =
              (s\<lparr>house_members :=
                   map (\<lambda>x. if m_userId x = targetUserId \<and> m_houseId x = houseId
                             then x\<lparr>m_role := newRole\<rparr> else x)
                     (house_members s)\<rparr>,
               Inr (m\<lparr>m_role := newRole\<rparr>)))"
proof (intro conjI)
  show "updateMemberRole houseId targetUserId OWNER s =
           (s\<lparr>house_members :=
                map (\<lambda>x. if m_userId x = targetUserId \<and> m_houseId x = houseId
                          then x\<lparr>m_role := OWNER\<rparr> else x)
                  (house_members s)\<rparr>,
            Inr (m\<lparr>m_role := OWNER\<rparr>))"
    using found by (simp add: updateMemberRole_def houseMember_update_role_def)
  show "house_members_userId_houseId_key s \<and> m_role m = OWNER \<longrightarrow>
            updateMemberRole houseId targetUserId OWNER s = (s, Inr m)"
  proof
    assume a: "house_members_userId_houseId_key s \<and> m_role m = OWNER"
    have fm: "find (\<lambda>x. (m_userId x, m_houseId x) = (targetUserId, houseId)) (house_members s)
                = Some m"
      using found by (simp add: houseMember_findUnique_def)
    have mm: "m\<lparr>m_role := OWNER\<rparr> = m" using a by simp
    have "map (\<lambda>x. if (m_userId x, m_houseId x) = (targetUserId, houseId)
                     then x\<lparr>m_role := OWNER\<rparr> else x) (house_members s) = house_members s"
      using map_key_id [OF _ fm, of "\<lambda>x. x\<lparr>m_role := OWNER\<rparr>"] a mm
      by (simp add: house_members_userId_houseId_key_def)
    then show "updateMemberRole houseId targetUserId OWNER s = (s, Inr m)"
      using found mm by (simp add: updateMemberRole_def houseMember_update_role_def)
  qed
  show "updateMemberRole houseId targetUserId newRole s =
             (s, Inl (UnprocessableEntityError ''Cannot demote the last owner of the house''))
           \<longleftrightarrow> m_role m = OWNER \<and> newRole \<noteq> OWNER \<and> ownerCount s houseId \<le> 1"
    using found by (simp add: updateMemberRole_def houseMember_update_role_def)
  show "\<not> (m_role m = OWNER \<and> newRole \<noteq> OWNER \<and> ownerCount s houseId \<le> 1) \<longrightarrow>
            updateMemberRole houseId targetUserId newRole s =
              (s\<lparr>house_members :=
                   map (\<lambda>x. if m_userId x = targetUserId \<and> m_houseId x = houseId
                             then x\<lparr>m_role := newRole\<rparr> else x)
                     (house_members s)\<rparr>,
               Inr (m\<lparr>m_role := newRole\<rparr>))"
    using found by (simp add: updateMemberRole_def houseMember_update_role_def)
qed

lemma createHouse_failure:
  "createHouse newHouseId newMemberId now userId data displayName s = (s', Inl e) \<Longrightarrow> s' = s"
  by (auto simp: createHouse_def transaction_def split: prod.splits sum.splits)

lemma createHouse_success:
  assumes fk: "house_members_houseId_fkey s"
    and ok: "createHouse newHouseId newMemberId now userId data displayName s = (s', Inr house)"
  shows "houses s' = houses s @ [house] \<and> h_id house = newHouseId
       \<and> house_members s' = house_members s @
            [\<lparr>m_id = newMemberId, m_displayName = displayName, m_role = OWNER,
              m_createdAt = now, m_userId = userId, m_houseId = newHouseId\<rparr>]
       \<and> filter (\<lambda>m. m_houseId m = h_id house) (house_members s') =
            [\<lparr>m_id = newMemberId, m_displayName = displayName, m_role = OWNER,
              m_createdAt = now, m_userId = userId, m_houseId = newHouseId\<rparr>]"
proof -
  have fresh: "newHouseId \<notin> set (map h_id (houses s))"
    using ok by (auto simp: createHouse_def transaction_def createHouse_body_def
        house_create_def split: prod.splits sum.splits if_splits)
  have none: "filter (\<lambda>m. m_houseId m = newHouseId) (house_members s) = []"
    using fk fresh by (auto simp: house_members_houseId_fkey_def list_all_iff filter_empty_conv)
  show ?thesis
    using ok none
    by (auto simp: createHouse_def transaction_def createHouse_body_def house_create_def
        houseMember_create_def Let_def split: prod.splits sum.splits if_splits)
qed

lemma createHouse_succeeds:
  assumes "newHouseId \<notin> set (map h_id (houses s))"
    and "newMemberId \<notin> set (map m_id (house_members s))"
    and "userId \<in> set (users s)"
    and "house_members_houseId_fkey s"
  shows "\<exists>s' house. createHouse newHouseId newMemberId now userId data displayName s = (s', Inr house)"
proof -
  have none: "\<forall>m\<in>set (house_members s). m_houseId m \<noteq> newHouseId"
    using assms(1,4) by (auto simp: house_members_houseId_fkey_def list_all_iff)
  then show ?thesis using assms(1-3)
    by (auto simp: createHouse_def transaction_def createHouse_body_def house_create_def
        houseMember_create_def Let_def image_iff)
qed

theorem last_owner_protected_witness:
  "house_members_userId_houseId_key ex_store
   \<and> filter (\<lambda>m. m_houseId m = ''h1'' \<and> m_role m = OWNER) (house_members ex_store) = [ex_owner]
   \<and> removeMember ''h1'' ''u1'' ex_store =
        (ex_store, Inl (UnprocessableEntityError ''Cannot remove the last owner of the house''))
   \<and> updateMemberRole ''h1'' ''u1'' MEMBER ex_store =
        (ex_store, Inl (UnprocessableEntityError ''Cannot demote the last owner of the house''))
   \<and> 1 \<le> ownerCount (fst (removeMember ''h1'' ''u3'' ex_store)) ''h1''
   \<and> 1 \<le> ownerCount (fst (updateMemberRole ''h1'' ''u2'' OWNER ex_store)) ''h1''"
proof -
  have key: "house_members_userId_houseId_key ex_store"
    by (simp add: house_members_userId_houseId_key_def ex_store_def ex_owner_def
        ex_creator_def ex_assignee_def)
  have sole: "filter (\<lambda>m. m_houseId m = ''h1'' \<and> m_role m = OWNER) (house_members ex_store)
                = [ex_owner]"
    by (simp add: ex_store_def ex_owner_def ex_creator_def ex_assignee_def)
  have one: "1 \<le> ownerCount ex_store ''h1''"
    using sole by (simp add: ownerCount_def)
  have u: "m_userId ex_owner = ''u1''" by (simp add: ex_owner_def)
  show ?thesis
    using last_owner_protected [OF key sole] key sole one u by simp
qed

theorem updateMemberRole_to_OWNER_witness:
  "houseMember_findUnique ex_store ''u1'' ''h1'' = Some ex_owner
   \<and> houseMember_findUnique ex_store ''u2'' ''h1'' = Some ex_creator
   \<and> ownerCount ex_store ''h1'' = 1
   \<and> updateMemberRole ''h1'' ''u1'' OWNER ex_store = (ex_store, Inr ex_owner)
   \<and> updateMemberRole ''h1'' ''u2'' OWNER ex_store =
        (ex_store\<lparr>house_members := [ex_owner, ex_creator\<lparr>m_role := OWNER\<rparr>, ex_assignee]\<rparr>,
         Inr (ex_creator\<lparr>m_role := OWNER\<rparr>))
   \<and> updateMemberRole ''h1'' ''u1'' MEMBER ex_store =
        (ex_store, Inl (UnprocessableEntityError ''Cannot demote the last owner of the house''))
   \<and> updateMemberRole ''h1'' ''u2'' MEMBER ex_store \<noteq>
        (ex_store, Inl (UnprocessableEntityError ''Cannot demote the last owner of the house''))"
proof -
  have found: "houseMember_findUnique ex_store ''u1'' ''h1'' = Some ex_owner"
    by (simp add: houseMember_findUnique_def ex_store_def ex_owner_def)
  have found2: "houseMember_findUnique ex_store ''u2'' ''h1'' = Some ex_creator"
    by (simp add: houseMember_findUnique_def ex_store_def ex_owner_def ex_creator_def)
  have key: "house_members_userId_houseId_key ex_store"
    by (simp add: house_members_userId_houseId_key_def ex_store_def ex_owner_def
        ex_creator_def ex_assignee_def)
  have r: "m_role ex_owner = OWNER" "m_role ex_creator = MEMBER"
    by (simp_all add: ex_owner_def ex_creator_def)
  have c: "ownerCount ex_store ''h1'' = 1"
    by (simp add: ownerCount_def ex_store_def ex_owner_def ex_creator_def ex_assignee_def)
  have promoted: "map (\<lambda>x. if m_userId x = ''u2'' \<and> m_houseId x = ''h1''
                          then x\<lparr>m_role := OWNER\<rparr> else x) (house_members ex_store)
                  = [ex_owner, ex_creator\<lparr>m_role := OWNER\<rparr>, ex_assignee]"
    by (simp add: ex_store_def ex_owner_def ex_creator_def ex_assignee_def)
  note t1 = updateMemberRole_to_OWNER [OF found, where newRole = MEMBER]
  note t2 = updateMemberRole_to_OWNER [OF found2, where newRole = MEMBER]
  have a: "updateMemberRole ''h1'' ''u1'' OWNER ex_store = (ex_store, Inr ex_owner)"
    using t1 key r(1) by blast
  have b: "updateMemberRole ''h1'' ''u2'' OWNER ex_store =
        (ex_store\<lparr>house_members := [ex_owner, ex_creator\<lparr>m_role := OWNER\<rparr>, ex_assignee]\<rparr>,
         Inr (ex_creator\<lparr>m_role := OWNER\<rparr>))"
    using conjunct1 [OF t2] promoted by simp
  have d: "updateMemberRole ''h1'' ''u1'' MEMBER ex_store =
        (ex_store, Inl (UnprocessableEntityError ''Cannot demote the last owner of the house''))"
    using t1 [THEN conjunct2, THEN conjunct2, THEN conjunct1] r(1) c by simp
  have e: "updateMemberRole ''h1'' ''u2'' MEMBER ex_store \<noteq>
        (ex_store, Inl (UnprocessableEntityError ''Cannot demote the last owner of the house''))"
    using t2 [THEN conjunct2, THEN conjunct2, THEN conjunct1] r(2) by simp
  show ?thesis
    using found found2 c a b d e by (intro conjI)
qed

text \<open>
  Claim C4. \<open>createHouse\<close> either fails and leaves the store unchanged, or adds exactly
  one house row and one membership row with the actor's user id, role OWNER and the given
  display name, which then is the only membership of the new house; it succeeds whenever
  the generated keys are fresh and the user exists.
\<close>

theorem createHouse_atomic:
  assumes fk: "house_members_houseId_fkey s"
  shows "(case createHouse newHouseId newMemberId now userId data displayName s of
            (s', Inl e) \<Rightarrow> s' = s
          | (s', Inr house) \<Rightarrow>
              houses s' = houses s @ [house] \<and> h_id house = newHouseId
              \<and> house_members s' = house_members s @
                   [\<lparr>m_id = newMemberId, m_displayName = displayName, m_role = OWNER,
                     m_createdAt = now, m_userId = userId, m_houseId = newHouseId\<rparr>]
              \<and> filter (\<lambda>m. m_houseId m = h_id house) (house_members s') =
                   [\<lparr>m_id = newMemberId, m_displayName = displayName, m_role = OWNER,
                     m_createdAt = now, m_userId = userId, m_houseId = newHouseId\<rparr>])
       \<and> (newHouseId \<notin> set (map h_id (houses s))
            \<and> newMemberId \<notin> set (map m_id (house_members s))
            \<and> userId \<in> set (users s) \<longrightarrow>
          (\<exists>s' house. createHouse newHouseId newMemberId now userId data displayName s
                         = (s', Inr house)))"
proof
  obtain s' r where c: "createHouse newHouseId newMemberId now userId data displayName s = (s', r)"
    by (cases "createHouse newHouseId newMemberId now userId data displayName s")
  show "case createHouse newHouseId newMemberId now userId data displayName s of
            (s', Inl e) \<Rightarrow> s' = s
          | (s', Inr house) \<Rightarrow>
              houses s' = houses s @ [house] \<and> h_id house = newHouseId
              \<and> house_members s' = house_members s @
                   [\<lparr>m_id = newMemberId, m_displayName = displayName, m_role = OWNER,
                     m_createdAt = now, m_userId = userId, m_houseId = newHouseId\<rparr>]
              \<and> filter (\<lambda>m. m_houseId m = h_id house) (house_members s') =
                   [\<lparr>m_id = newMemberId, m_displayName = displayName, m_role = OWNER,
                     m_createdAt = now, m_userId = userId, m_houseId = newHouseId\<rparr>]"
  proof (cases r)
    case (Inl e)
    then show ?thesis using c createHouse_failure [of newHouseId newMemberId now userId data displayName s s' e]
      by simp
  next
    case (Inr house)
    have "houses s' = houses s @ [house] \<and> h_id house = newHouseId
              \<and> house_members s' = house_members s @
                   [\<lparr>m_id = newMemberId, m_displayName = displayName, m_role = OWNER,
                     m_createdAt = now, m_userId = userId, m_houseId = newHouseId\<rparr>]
              \<and> filter (\<lambda>m. m_houseId m = h_id house) (house_members s') =
                   [\<lparr>m_id = newMemberId, m_displayName = displayName, m_role = OWNER,
                     m_createdAt = now, m_userId = userId, m_houseId = newHouseId\<rparr>]"
      by (rule createHouse_success [OF fk c [unfolded Inr]])
    note facts = this
    show ?thesis unfolding c Inr prod.case sum.case by (rule facts)
  qed
  show "newHouseId \<notin> set (map h_id (houses s))
            \<and> newMemberId \<notin> set (map m_id (house_members s))
            \<and> userId \<in> set (users s) \<longrightarrow>
          (\<exists>s' house. createHouse newHouseId newMemberId now userId data displayName s
                         = (s', Inr house))"
    using createHouse_succeeds [OF _ _ _ fk] by blast
qed

theorem createHouse_atomic_witness:
  "house_members_houseId_fkey ex_store
   \<and> createHouse ''h2'' ''m4'' 50 ''u2'' \<lparr>chi_name = ''Cabin'', chi_description = None\<rparr> ''Mom''
        ex_store =
       (ex_store\<lparr>houses := houses ex_store @
                    [\<lparr>h_id = ''h2'', h_name = ''Cabin'', h_description = None\<rparr>],
                 house_members := house_members ex_store @
                    [\<lparr>m_id = ''m4'', m_displayName = ''Mom'', m_role = OWNER, m_createdAt = 50,
                      m_userId = ''u2'', m_houseId = ''h2''\<rparr>]\<rparr>,
        Inr \<lparr>h_id = ''h2'', h_name = ''Cabin'', h_description = None\<rparr>)
   \<and> houses (fst (createHouse_body ''h2'' ''m4'' 50 ''u9''
          \<lparr>chi_name = ''Cabin'', chi_description = None\<rparr> ''Mom'' ex_store))
       = houses ex_store @ [\<lparr>h_id = ''h2'', h_name = ''Cabin'', h_description = None\<rparr>]
   \<and> createHouse ''h2'' ''m4'' 50 ''u9'' \<lparr>chi_name = ''Cabin'', chi_description = None\<rparr> ''Mom''
        ex_store = (ex_store, Inl (PrismaError ''house_members_userId_fkey''))"
proof -
  have fk: "house_members_houseId_fkey ex_store"
    by (simp add: house_members_houseId_fkey_def ex_store_def ex_owner_def ex_creator_def
        ex_assignee_def)
  have a: "createHouse ''h2'' ''m4'' 50 ''u2'' \<lparr>chi_name = ''Cabin'', chi_description = None\<rparr>
        ''Mom'' ex_store =
       (ex_store\<lparr>houses := houses ex_store @
                    [\<lparr>h_id = ''h2'', h_name = ''Cabin'', h_description = None\<rparr>],
                 house_members := house_members ex_store @
                    [\<lparr>m_id = ''m4'', m_displayName = ''Mom'', m_role = OWNER, m_createdAt = 50,
                      m_userId = ''u2'', m_houseId = ''h2''\<rparr>]\<rparr>,
        Inr \<lparr>h_id = ''h2'', h_name = ''Cabin'', h_description = None\<rparr>)"
    by (simp add: createHouse_def transaction_def createHouse_body_def house_create_def
        houseMember_create_def Let_def ex_store_def ex_owner_def ex_creator_def
        ex_assignee_def)
  have b: "createHouse_body ''h2'' ''m4'' 50 ''u9''
          \<lparr>chi_name = ''Cabin'', chi_description = None\<rparr> ''Mom'' ex_store
       = (ex_store\<lparr>houses := houses ex_store @
             [\<lparr>h_id = ''h2'', h_name = ''Cabin'', h_description = None\<rparr>]\<rparr>,
          Inl (PrismaError ''house_members_userId_fkey''))"
    by (simp add: createHouse_body_def house_create_def houseMember_create_def Let_def
        ex_store_def ex_owner_def ex_creator_def ex_assignee_def)
  have c: "createHouse ''h2'' ''m4'' 50 ''u9'' \<lparr>chi_name = ''Cabin'', chi_description = None\<rparr>
        ''Mom'' ex_store = (ex_store, Inl (PrismaError ''house_members_userId_fkey''))"
    by (simp add: createHouse_def transaction_def b)
  show ?thesis
    using createHouse_atomic [OF fk, where newHouseId = "''h2''" and newMemberId = "''m4''"
        and now = 50 and userId = "''u2''" and displayName = "''Mom''"
        and data = "\<lparr>chi_name = ''Cabin'', chi_description = None\<rparr>"] fk a b c
    by simp
qed

section \<open>Properties of TaskService: who may modify and delete\<close>

text \<open>
  Claim C1. The three modifying operations decide by \<open>canUserModifyTask\<close>, which takes
  no role: in the example house the OWNER, who neither created the task nor is assigned to
  it, is refused with ForbiddenError by \<open>updateTask\<close>, \<open>updateTaskStatus\<close> and
  \<open>updateTaskAssignees\<close>.
\<close>

theorem owner_refused_modification:
  "houseMember_findUnique_id ex_store ''m1'' = Some ex_owner \<and> m_role ex_owner = OWNER
   \<and> getTaskById ex_store ''t1'' ''h1'' =
        Inr \<lparr>task = ex_task, assignees = [\<lparr>a_taskId = ''t1'', a_houseMemberId = ''m3''\<rparr>]\<rparr>
   \<and> updateTask ex_env ''t1'' ''h1'' ''m1''
        \<lparr>uti_title = Val ''Pans'', uti_description = Undefined, uti_priority = Undefined,
         uti_dueDate = Undefined, uti_categoryId = Undefined\<rparr> ex_store =
       (ex_store, Inl (ForbiddenError
          ''Only task creator, assignees, or house owner can update this task''))
   \<and> updateTaskStatus 200 ''t1'' ''h1'' ''m1'' COMPLETED ex_store =
       (ex_store, Inl (ForbiddenError
          ''Only task creator, assignees, or house owner can update task status''))
   \<and> updateTaskAssignees ''t1'' ''h1'' ''m1'' [] ex_store =
       (ex_store, Inl (ForbiddenError
          ''Only task creator, assignees, or house owner can update task assignees''))"
  by (simp add: houseMember_findUnique_id_def getTaskById_def include_assignees_def
      canUserModifyTask_def updateTask_def updateTaskStatus_def updateTaskAssignees_def
      ex_store_def ex_owner_def ex_task_def)

text \<open>
  Claim C3. For a task found in the house and an actor whose membership has role
  \<open>m_role actor\<close>, \<open>deleteTask\<close> deletes the task (and its assignments) exactly when
  the actor created it or is OWNER; otherwise it fails with ForbiddenError and the store,
  the task included, is unchanged. Being an assignee plays no part.
\<close>

theorem deleteTask_permission:
  assumes found: "getTaskById s taskId houseId = Inr tk"
    and actor: "houseMember_findUnique_id s M = Some actor"
  shows "deleteTask taskId houseId M s =
           (if t_createdById (task tk) = M \<or> m_role actor = OWNER
            then (s\<lparr>tasks := filter (\<lambda>x. t_id x \<noteq> taskId) (tasks s),
                    task_assignees := filter (\<lambda>a. a_taskId a \<noteq> taskId) (task_assignees s)\<rparr>,
                  Inr Success)
            else (s, Inl (ForbiddenError
                    ''Only task creator or house owner can delete this task'')))"
proof -
  obtain t where t: "find (\<lambda>t. t_id t = taskId \<and> t_houseId t = houseId) (tasks s) = Some t"
    using found by (auto simp: getTaskById_def split: option.splits)
  have "t \<in> set (tasks s) \<and> t_id t = taskId" using find_Some_mem [OF t] by simp
  then have "find (\<lambda>t. t_id t = taskId) (tasks s) \<noteq> None"
    by (auto simp: find_None_iff)
  then obtain t' where t': "find (\<lambda>t. t_id t = taskId) (tasks s) = Some t'" by auto
  show ?thesis
    using found actor t'
    by (simp add: deleteTask_def task_delete_def Let_def)
qed

theorem deleteTask_permission_witness:
  "getTaskById ex_store ''t1'' ''h1'' =
      Inr \<lparr>task = ex_task, assignees = [\<lparr>a_taskId = ''t1'', a_houseMemberId = ''m3''\<rparr>]\<rparr>
   \<and> houseMember_findUnique_id ex_store ''m3'' = Some ex_assignee
   \<and> deleteTask ''t1'' ''h1'' ''m3'' ex_store =
       (ex_store, Inl (ForbiddenError ''Only task creator or house owner can delete this task''))
   \<and> deleteTask ''t1'' ''h1'' ''m1'' ex_store =
       (ex_store\<lparr>tasks := [], task_assignees := []\<rparr>, Inr Success)
   \<and> deleteTask ''t1'' ''h1'' ''m2'' ex_store =
       (ex_store\<lparr>tasks := [], task_assignees := []\<rparr>, Inr Success)"
proof -
  have found: "getTaskById ex_store ''t1'' ''h1'' =
      Inr \<lparr>task = ex_task, assignees = [\<lparr>a_taskId = ''t1'', a_houseMemberId = ''m3''\<rparr>]\<rparr>"
    by (simp add: getTaskById_def include_assignees_def ex_store_def ex_task_def)
  have m3: "houseMember_findUnique_id ex_store ''m3'' = Some ex_assignee"
    by (simp add: houseMember_findUnique_id_def ex_store_def ex_owner_def ex_creator_def
        ex_assignee_def)
  have m1: "houseMember_findUnique_id ex_store ''m1'' = Some ex_owner"
    by (simp add: houseMember_findUnique_id_def ex_store_def ex_owner_def)
  have m2: "houseMember_findUnique_id ex_store ''m2'' = Some ex_creator"
    by (simp add: houseMember_findUnique_id_def ex_store_def ex_owner_def ex_creator_def)
  have st: "filter (\<lambda>x. t_id x \<noteq> ''t1'') (tasks ex_store) = []"
    "filter (\<lambda>a. a_taskId a \<noteq> ''t1'') (task_assignees ex_store) = []"
    by (simp_all add: ex_store_def ex_task_def)
  have r: "t_createdById ex_task = ''m2''" "m_role ex_assignee = MEMBER" "m_role ex_owner = OWNER"
    by (simp_all add: ex_task_def ex_assignee_def ex_owner_def)
  show ?thesis
    using deleteTask_permission [OF found m3] deleteTask_permission [OF found m1]
      deleteTask_permission [OF found m2] found m3 st r
    by simp
qed


section \<open>Properties of TaskService: assignees, status, update, listing\<close>


lemma validAssignees_length:
  assumes pk: "house_members_pkey s"
  shows "length (validAssignees s houseId L) = card (set L \<inter> house_member_ids s houseId)"
proof -
  let ?V = "validAssignees s houseId L"
  have d: "distinct (map m_id ?V)"
    using pk by (simp add: house_members_pkey_def validAssignees_def distinct_map_filter)
  have "set (map m_id ?V) = set L \<inter> house_member_ids s houseId"
    by (auto simp: validAssignees_def house_member_ids_def)
  then have "card (set L \<inter> house_member_ids s houseId) = length (map m_id ?V)"
    using distinct_card [OF d] by simp
  then show ?thesis by simp
qed

lemma assignees_invalid_iff:
  assumes pk: "house_members_pkey s"
  shows "assignees_invalid s houseId L \<longleftrightarrow>
         \<not> (distinct L \<and> set L \<subseteq> house_member_ids s houseId)"
proof -
  let ?H = "house_member_ids s houseId"
  have le1: "card (set L \<inter> ?H) \<le> card (set L)" by (simp add: card_mono)
  have le2: "card (set L) \<le> length L" by (rule card_length)
  show ?thesis
  proof (cases "distinct L \<and> set L \<subseteq> ?H")
    case True
    then have "set L \<inter> ?H = set L" by auto
    then have "card (set L \<inter> ?H) = length L" using True by (simp add: distinct_card)
    then show ?thesis using True validAssignees_length [OF pk, of houseId L]
      by (simp add: assignees_invalid_def)
  next
    case False
    have "card (set L \<inter> ?H) \<noteq> length L"
    proof
      assume eq: "card (set L \<inter> ?H) = length L"
      then have c1: "card (set L) = length L" and c2: "card (set L \<inter> ?H) = card (set L)"
        using le1 le2 by auto
      have "distinct L" using c1 by (rule card_distinct)
      moreover have "set L \<inter> ?H = set L"
        using c2 by (intro card_subset_eq) auto
      ultimately show False using False by auto
    qed
    then show ?thesis using False validAssignees_length [OF pk, of houseId L]
      by (simp add: assignees_invalid_def)
  qed
qed

lemma createTask_failure_unchanged:
  "createTask newId now env houseId createdById data s = (s', Inl e) \<Longrightarrow> s' = s"
  by (auto simp: createTask_def transaction_def split: if_splits prod.splits sum.splits)

text \<open>
  Claim C6. When the assignee ids of a \<open>createTask\<close> request hold an id that is not
  the id of a membership of the target house, \<open>createTask\<close> fails with
  UnprocessableEntityError and the store is unchanged: no task row and no assignment row
  is created. More generally every failure of \<open>createTask\<close> leaves the store as it
  was, the insert of the task and of its assignments being one transaction.
\<close>

theorem createTask_foreign_assignee:
  assumes pk: "house_members_pkey s"
    and ids: "cti_assigneeIds data = Val assigneeIds"
    and foreign: "\<not> set assigneeIds \<subseteq>
                    set (map m_id (filter (\<lambda>m. m_houseId m = houseId) (house_members s)))"
  shows "createTask newId now env houseId createdById data s =
           (s, Inl (UnprocessableEntityError ''Some assignees are not members of this house''))
       \<and> (\<forall>data' s' e. createTask newId now env houseId createdById data' s = (s', Inl e)
             \<longrightarrow> s' = s)"
proof -
  have ne: "assigneeIds \<noteq> []" using foreign by auto
  have "assignees_invalid s houseId assigneeIds"
    using assignees_invalid_iff [OF pk, of houseId assigneeIds] foreign
    by (simp add: house_member_ids_def)
  then have "createTask newId now env houseId createdById data s =
           (s, Inl (UnprocessableEntityError ''Some assignees are not members of this house''))"
    using ids ne by (simp add: createTask_def)
  then show ?thesis using createTask_failure_unchanged by blast
qed

theorem createTask_foreign_assignee_witness:
  "house_members_pkey ex_store
   \<and> \<not> set [''m3'', ''zz''] \<subseteq>
         set (map m_id (filter (\<lambda>m. m_houseId m = ''h1'') (house_members ex_store)))
   \<and> createTask ''t2'' 300 ex_env ''h1'' ''m2''
        \<lparr>cti_title = ''Bins'', cti_description = Undefined, cti_priority = MEDIUM,
         cti_dueDate = Undefined, cti_categoryId = Undefined,
         cti_assigneeIds = Val [''m3'', ''zz'']\<rparr> ex_store =
       (ex_store, Inl (UnprocessableEntityError ''Some assignees are not members of this house''))
   \<and> task_assignees (fst (createTask ''t2'' 300 ex_env ''h1'' ''m2''
        \<lparr>cti_title = ''Bins'', cti_description = Undefined, cti_priority = MEDIUM,
         cti_dueDate = Undefined, cti_categoryId = Undefined,
         cti_assigneeIds = Val [''m3'']\<rparr> ex_store)) =
       [\<lparr>a_taskId = ''t1'', a_houseMemberId = ''m3''\<rparr>,
        \<lparr>a_taskId = ''t2'', a_houseMemberId = ''m3''\<rparr>]"
proof -
  have pk: "house_members_pkey ex_store"
    by (simp add: house_members_pkey_def ex_store_def ex_owner_def ex_creator_def
        ex_assignee_def)
  have foreign: "\<not> set [''m3'', ''zz''] \<subseteq>
         set (map m_id (filter (\<lambda>m. m_houseId m = ''h1'') (house_members ex_store)))"
    by (simp add: ex_store_def ex_owner_def ex_creator_def ex_assignee_def)
  have ok: "task_assignees (fst (createTask ''t2'' 300 ex_env ''h1'' ''m2''
        \<lparr>cti_title = ''Bins'', cti_description = Undefined, cti_priority = MEDIUM,
         cti_dueDate = Undefined, cti_categoryId = Undefined,
         cti_assigneeIds = Val [''m3'']\<rparr> ex_store)) =
       [\<lparr>a_taskId = ''t1'', a_houseMemberId = ''m3''\<rparr>,
        \<lparr>a_taskId = ''t2'', a_houseMemberId = ''m3''\<rparr>]"
    by (simp add: createTask_def assignees_invalid_def validAssignees_def transaction_def
        createTask_body_def task_create_def category_fk_ok_def include_assignees_def
        taskAssignee_createMany_def assignee_key_def task_findUnique_def Let_def
        ex_store_def ex_owner_def ex_creator_def ex_assignee_def ex_task_def)
  show ?thesis
    using createTask_foreign_assignee [OF pk _ foreign, where newId = "''t2''" and now = 300
        and env = ex_env and createdById = "''m2''"
        and data = "\<lparr>cti_title = ''Bins'', cti_description = Undefined, cti_priority = MEDIUM,
         cti_dueDate = Undefined, cti_categoryId = Undefined,
         cti_assigneeIds = Val [''m3'', ''zz'']\<rparr>"] pk foreign ok
    by simp
qed

lemma found_task_id:
  assumes "getTaskById s taskId houseId = Inr tk"
  shows "taskId \<in> set (map t_id (tasks s))" "t_id (task tk) = taskId" "task tk \<in> set (tasks s)"
    "t_houseId (task tk) = houseId"
    "assignees tk = filter (\<lambda>a. a_taskId a = taskId) (task_assignees s)"
proof -
  obtain t where t: "find (\<lambda>t. t_id t = taskId \<and> t_houseId t = houseId) (tasks s) = Some t"
    and tk: "tk = include_assignees s t"
    using assms by (auto simp: getTaskById_def split: option.splits)
  have m: "t \<in> set (tasks s) \<and> t_id t = taskId \<and> t_houseId t = houseId"
    using find_Some_mem [OF t] by simp
  show "taskId \<in> set (map t_id (tasks s))" using m by force
  show "t_id (task tk) = taskId" using m tk by (simp add: include_assignees_def)
  show "task tk \<in> set (tasks s)" using m tk by (simp add: include_assignees_def)
  show "t_houseId (task tk) = houseId" using m tk by (simp add: include_assignees_def)
  show "assignees tk = filter (\<lambda>a. a_taskId a = taskId) (task_assignees s)"
    using m tk by (simp add: include_assignees_def)
qed

lemma updateTaskAssignees_body_ok:
  assumes tid: "taskId \<in> set (map t_id (tasks s))"
    and dist: "distinct L" and mem: "set L \<subseteq> set (map m_id (house_members s))"
  shows "updateTaskAssignees_body taskId L s =
           (full_replace s taskId L, Inr (task_findUnique (full_replace s taskId L) taskId))"
proof (cases "L = []")
  case True
  then show ?thesis
    by (simp add: updateTaskAssignees_body_def taskAssignee_deleteMany_def full_replace_def)
next
  case False
  let ?rows = "map (\<lambda>assigneeId. \<lparr>a_taskId = taskId, a_houseMemberId = assigneeId\<rparr>) L"
  let ?s1 = "s\<lparr>task_assignees := filter (\<lambda>a. a_taskId a \<noteq> taskId) (task_assignees s)\<rparr>"
  have k: "map assignee_key ?rows = map (\<lambda>i. (taskId, i)) L"
    by (simp add: assignee_key_def)
  have d: "distinct (map assignee_key ?rows)"
    unfolding k using dist by (simp add: distinct_map inj_on_def)
  have nc: "\<not> list_ex (\<lambda>a. assignee_key a \<in> set (map assignee_key (task_assignees ?s1))) ?rows"
    by (auto simp: list_ex_iff assignee_key_def)
  have fk1: "list_all (\<lambda>a. a_taskId a \<in> set (map t_id (tasks ?s1))) ?rows"
    using tid by (simp add: list_all_iff)
  have fk2: "list_all (\<lambda>a. a_houseMemberId a \<in> set (map m_id (house_members ?s1))) ?rows"
    using mem by (auto simp: list_all_iff)
  have cm: "taskAssignee_createMany ?rows ?s1 =
              (?s1\<lparr>task_assignees := task_assignees ?s1 @ ?rows\<rparr>, Inr (length ?rows))"
    using d nc fk1 fk2 unfolding taskAssignee_createMany_def by (simp only: simp_thms if_False)
  show ?thesis
    using False cm
    by (simp add: updateTaskAssignees_body_def taskAssignee_deleteMany_def full_replace_def)
qed

lemma house_member_ids_subset:
  "house_member_ids s houseId \<subseteq> set (map m_id (house_members s))"
  by (auto simp: house_member_ids_def)

lemma updateTaskAssignees_valid:
  assumes pk: "house_members_pkey s"
    and found: "getTaskById s taskId houseId = Inr tk"
    and perm: "canUserModifyTask tk M"
    and ok: "distinct L \<and> set L \<subseteq> house_member_ids s houseId"
  shows "updateTaskAssignees taskId houseId M L s =
           (full_replace s taskId L, Inr (task_findUnique (full_replace s taskId L) taskId))"
proof -
  have inv: "\<not> assignees_invalid s houseId L"
    using assignees_invalid_iff [OF pk, of houseId L] ok by simp
  have mem: "set L \<subseteq> set (map m_id (house_members s))"
    using ok house_member_ids_subset by blast
  have body: "updateTaskAssignees_body taskId L s =
           (full_replace s taskId L, Inr (task_findUnique (full_replace s taskId L) taskId))"
    using updateTaskAssignees_body_ok [OF found_task_id(1) [OF found] _ mem] ok by simp
  show ?thesis
    using found perm inv body by (simp add: updateTaskAssignees_def transaction_def)
qed

lemma updateTaskAssignees_invalid:
  assumes pk: "house_members_pkey s"
    and found: "getTaskById s taskId houseId = Inr tk"
    and perm: "canUserModifyTask tk M"
    and bad: "\<not> (distinct L \<and> set L \<subseteq> house_member_ids s houseId)"
  shows "updateTaskAssignees taskId houseId M L s =
           (s, Inl (UnprocessableEntityError ''Some assignees are not members of this house''))"
proof -
  have inv: "assignees_invalid s houseId L"
    using assignees_invalid_iff [OF pk, of houseId L] bad by simp
  have ne: "L \<noteq> []" using bad by auto
  show ?thesis
    using found perm inv ne by (simp add: updateTaskAssignees_def)
qed

lemma full_replace_rows:
  "map a_houseMemberId (filter (\<lambda>a. a_taskId a = taskId) (task_assignees (full_replace s taskId L))) = L"
  "filter (\<lambda>a. a_taskId a \<noteq> taskId) (task_assignees (full_replace s taskId L))
     = filter (\<lambda>a. a_taskId a \<noteq> taskId) (task_assignees s)"
  by (simp_all add: full_replace_def filter_map comp_def map_idI)

lemma too_many_rejected:
  "10 < length vs \<Longrightarrow>
   \<exists>e. TaskController_updateTaskAssignees env id_param taskId_param (Some (JArray vs)) M s
        = (s, Inl e)"
  by (simp add: TaskController_updateTaskAssignees_def updateTaskAssigneesSchema_def
      split: sum.splits)

text \<open>
  Two requests on the example task, whose only assignee is Kid. The creator gives a list
  that names the member Dad twice: the list is refused and the rows stay. The OWNER, who
  neither created the task nor is assigned to it, gives a list of one member: refused
  with ForbiddenError, the rows stay.
\<close>

theorem updateTaskAssignees_refusals:
  "canUserModifyTask
     \<lparr>task = ex_task, assignees = [\<lparr>a_taskId = ''t1'', a_houseMemberId = ''m3''\<rparr>]\<rparr> ''m2''
   \<and> ''m1'' \<in> house_member_ids ex_store ''h1''
   \<and> ''m2'' \<in> house_member_ids ex_store ''h1''
   \<and> updateTaskAssignees ''t1'' ''h1'' ''m2'' [''m1'', ''m1''] ex_store =
       (ex_store, Inl (UnprocessableEntityError ''Some assignees are not members of this house''))
   \<and> houseMember_findUnique_id ex_store ''m1'' = Some ex_owner \<and> m_role ex_owner = OWNER
   \<and> updateTaskAssignees ''t1'' ''h1'' ''m1'' [''m2''] ex_store =
       (ex_store, Inl (ForbiddenError
          ''Only task creator, assignees, or house owner can update task assignees''))
   \<and> task_assignees ex_store = [\<lparr>a_taskId = ''t1'', a_houseMemberId = ''m3''\<rparr>]"
  by (simp add: houseMember_findUnique_id_def getTaskById_def include_assignees_def
      canUserModifyTask_def updateTaskAssignees_def assignees_invalid_def validAssignees_def
      house_member_ids_def ex_store_def ex_owner_def ex_creator_def ex_assignee_def
      ex_task_def)

text \<open>
  Claim C7, as amended. For a task found in the house and an actor who created it or is
  one of its assignees, \<open>updateTaskAssignees\<close> with a list \<open>L\<close> of distinct ids of
  members of the house succeeds and leaves the store with the task's rows fully replaced:
  the assignment rows of the task are those of \<open>L\<close>, in order, whatever they were
  before, and the rows of other tasks are untouched. A list with a repeated id or with an
  id that is not a member of the house is refused with UnprocessableEntityError and the
  store unchanged. The empty list succeeds and leaves no row for the task. A body with
  more than ten ids is rejected by the controller's schema.
\<close>

theorem updateTaskAssignees_full_replace:
  assumes pk: "house_members_pkey s"
    and found: "getTaskById s taskId houseId = Inr tk"
    and perm: "canUserModifyTask tk M"
  shows "(distinct L \<and> set L \<subseteq> house_member_ids s houseId \<longrightarrow>
            (\<exists>s' r. updateTaskAssignees taskId houseId M L s = (s', Inr r)
               \<and> s' = full_replace s taskId L
               \<and> map a_houseMemberId (filter (\<lambda>a. a_taskId a = taskId) (task_assignees s')) = L
               \<and> filter (\<lambda>a. a_taskId a \<noteq> taskId) (task_assignees s')
                   = filter (\<lambda>a. a_taskId a \<noteq> taskId) (task_assignees s)))
       \<and> (\<not> (distinct L \<and> set L \<subseteq> house_member_ids s houseId) \<longrightarrow>
            updateTaskAssignees taskId houseId M L s =
              (s, Inl (UnprocessableEntityError ''Some assignees are not members of this house'')))
       \<and> (\<exists>s' r. updateTaskAssignees taskId houseId M [] s = (s', Inr r)
               \<and> filter (\<lambda>a. a_taskId a = taskId) (task_assignees s') = [])
       \<and> (10 < length vs \<longrightarrow>
            (\<exists>e. TaskController_updateTaskAssignees env id_param taskId_param
                    (Some (JArray vs)) M s = (s, Inl e)))"
proof (intro conjI impI)
  assume ok: "distinct L \<and> set L \<subseteq> house_member_ids s houseId"
  show "\<exists>s' r. updateTaskAssignees taskId houseId M L s = (s', Inr r)
               \<and> s' = full_replace s taskId L
               \<and> map a_houseMemberId (filter (\<lambda>a. a_taskId a = taskId) (task_assignees s')) = L
               \<and> filter (\<lambda>a. a_taskId a \<noteq> taskId) (task_assignees s')
                   = filter (\<lambda>a. a_taskId a \<noteq> taskId) (task_assignees s)"
    using updateTaskAssignees_valid [OF pk found perm ok] full_replace_rows [of taskId s L]
    by blast
next
  assume "\<not> (distinct L \<and> set L \<subseteq> house_member_ids s houseId)"
  then show "updateTaskAssignees taskId houseId M L s =
              (s, Inl (UnprocessableEntityError ''Some assignees are not members of this house''))"
    by (rule updateTaskAssignees_invalid [OF pk found perm])
next
  have ok: "distinct ([]::id list) \<and> set [] \<subseteq> house_member_ids s houseId" by simp
  have "filter (\<lambda>a. a_taskId a = taskId) (task_assignees (full_replace s taskId [])) = []"
    using full_replace_rows(1) [of taskId s "[]"] by simp
  then show "\<exists>s' r. updateTaskAssignees taskId houseId M [] s = (s', Inr r)
               \<and> filter (\<lambda>a. a_taskId a = taskId) (task_assignees s') = []"
    using updateTaskAssignees_valid [OF pk found perm ok] by blast
next
  assume "10 < length vs"
  then show "\<exists>e. TaskController_updateTaskAssignees env id_param taskId_param
                    (Some (JArray vs)) M s = (s, Inl e)"
    by (rule too_many_rejected)
qed

theorem updateTaskAssignees_full_replace_witness:
  "house_members_pkey ex_store
   \<and> getTaskById ex_store ''t1'' ''h1'' =
        Inr \<lparr>task = ex_task, assignees = [\<lparr>a_taskId = ''t1'', a_houseMemberId = ''m3''\<rparr>]\<rparr>
   \<and> canUserModifyTask
        \<lparr>task = ex_task, assignees = [\<lparr>a_taskId = ''t1'', a_houseMemberId = ''m3''\<rparr>]\<rparr> ''m2''
   \<and> task_assignees (fst (updateTaskAssignees ''t1'' ''h1'' ''m2'' [''m1'', ''m2''] ex_store))
        = [\<lparr>a_taskId = ''t1'', a_houseMemberId = ''m1''\<rparr>,
           \<lparr>a_taskId = ''t1'', a_houseMemberId = ''m2''\<rparr>]
   \<and> task_assignees (fst (updateTaskAssignees ''t1'' ''h1'' ''m2'' [] ex_store)) = []
   \<and> updateTaskAssignees ''t1'' ''h1'' ''m2'' [''m1'', ''m1''] ex_store =
        (ex_store, Inl (UnprocessableEntityError ''Some assignees are not members of this house''))"
proof -
  have pk: "house_members_pkey ex_store"
    by (simp add: house_members_pkey_def ex_store_def ex_owner_def ex_creator_def
        ex_assignee_def)
  have found: "getTaskById ex_store ''t1'' ''h1'' =
        Inr \<lparr>task = ex_task, assignees = [\<lparr>a_taskId = ''t1'', a_houseMemberId = ''m3''\<rparr>]\<rparr>"
    by (simp add: getTaskById_def include_assignees_def ex_store_def ex_task_def)
  have perm: "canUserModifyTask
        \<lparr>task = ex_task, assignees = [\<lparr>a_taskId = ''t1'', a_houseMemberId = ''m3''\<rparr>]\<rparr> ''m2''"
    by (simp add: canUserModifyTask_def ex_task_def)
  have ids: "house_member_ids ex_store ''h1'' = {''m1'', ''m2'', ''m3''}"
    by (simp add: house_member_ids_def ex_store_def ex_owner_def ex_creator_def
        ex_assignee_def)
  have r1: "task_assignees (full_replace ex_store ''t1'' [''m1'', ''m2''])
        = [\<lparr>a_taskId = ''t1'', a_houseMemberId = ''m1''\<rparr>,
           \<lparr>a_taskId = ''t1'', a_houseMemberId = ''m2''\<rparr>]"
    "task_assignees (full_replace ex_store ''t1'' []) = []"
    by (simp_all add: full_replace_def ex_store_def)
  show ?thesis
    using updateTaskAssignees_full_replace [OF pk found perm, where L = "[''m1'', ''m2'']"]
      updateTaskAssignees_full_replace [OF pk found perm, where L = "[]"]
      updateTaskAssignees_full_replace [OF pk found perm, where L = "[''m1'', ''m1'']"]
      pk found perm ids r1
    by auto
qed

lemma found_by_id:
  assumes pk: "tasks_pkey s" and found: "getTaskById s taskId houseId = Inr tk"
  shows "find (\<lambda>t. t_id t = taskId) (tasks s) = Some (task tk)"
  using find_unique_key [of t_id "tasks s" "task tk"] pk found_task_id(2,3) [OF found]
  by (simp add: tasks_pkey_def)

lemma find_map_preserved:
  assumes "\<And>x. P (g x) = P x"
  shows "find P (map g xs) = map_option g (find P xs)"
  using assms by (induction xs) auto

lemma task_update_ok:
  assumes pk: "tasks_pkey s" and found: "getTaskById s taskId houseId = Inr tk"
    and fk: "t_categoryId (change (task tk)) = t_categoryId (task tk)
             \<or> category_fk_ok s (t_categoryId (change (task tk)))"
    and keep: "\<And>x. t_id (change x) = t_id x" "\<And>x. t_houseId (change x) = t_houseId x"
  shows "task_update taskId change s =
           (s\<lparr>tasks := map (\<lambda>x. if t_id x = taskId then change x else x) (tasks s)\<rparr>,
            Inr \<lparr>task = change (task tk), assignees = assignees tk\<rparr>)"
    and "getTaskById (s\<lparr>tasks := map (\<lambda>x. if t_id x = taskId then change x else x) (tasks s)\<rparr>)
           taskId houseId = Inr \<lparr>task = change (task tk), assignees = assignees tk\<rparr>"
    and "tasks_pkey (s\<lparr>tasks := map (\<lambda>x. if t_id x = taskId then change x else x) (tasks s)\<rparr>)"
proof -
  let ?g = "\<lambda>x. if t_id x = taskId then change x else x"
  let ?s' = "s\<lparr>tasks := map ?g (tasks s)\<rparr>"
  note f = found_task_id [OF found]
  have inc: "include_assignees ?s' (change (task tk)) =
               \<lparr>task = change (task tk), assignees = assignees tk\<rparr>"
    using f(2,5) keep(1) by (simp add: include_assignees_def)
  show "task_update taskId change s = (?s', Inr \<lparr>task = change (task tk), assignees = assignees tk\<rparr>)"
    using found_by_id [OF pk found] fk inc by (auto simp: task_update_def Let_def)
  have fnd: "find (\<lambda>t. t_id t = taskId \<and> t_houseId t = houseId) (tasks s) = Some (task tk)"
    using found by (auto simp: getTaskById_def include_assignees_def split: option.splits)
  have "find (\<lambda>t. t_id t = taskId \<and> t_houseId t = houseId) (map ?g (tasks s))
          = map_option ?g (find (\<lambda>t. t_id t = taskId \<and> t_houseId t = houseId) (tasks s))"
    by (rule find_map_preserved) (simp add: keep)
  then have "find (\<lambda>t. t_id t = taskId \<and> t_houseId t = houseId) (tasks ?s')
          = Some (change (task tk))"
    using fnd f(2) by simp
  then show "getTaskById ?s' taskId houseId = Inr \<lparr>task = change (task tk), assignees = assignees tk\<rparr>"
    using inc by (simp add: getTaskById_def)
  have "t_id \<circ> ?g = t_id" by (auto simp: keep(1) fun_eq_iff)
  then show "tasks_pkey ?s'" using pk by (simp add: tasks_pkey_def)
qed

lemma canUserModifyTask_iff:
  "canUserModifyTask tk M \<longleftrightarrow>
     t_createdById (task tk) = M
     \<or> list_ex (\<lambda>assignment. a_houseMemberId assignment = M) (assignees tk)"
  by (simp add: canUserModifyTask_def)

lemma updateTaskStatus_step:
  assumes pk: "tasks_pkey s" and found: "getTaskById s taskId houseId = Inr tk"
    and perm: "canUserModifyTask tk M"
  shows "\<exists>s' tk'. updateTaskStatus now taskId houseId M status s = (s', Inr tk')
           \<and> t_status (task tk') = status
           \<and> t_completedAt (task tk') = (if status = COMPLETED then Some now else None)
           \<and> getTaskById s' taskId houseId = Inr tk'
           \<and> tasks_pkey s' \<and> canUserModifyTask tk' M"
proof -
  let ?c = "updateTaskStatus_data now status"
  have keep: "\<And>x. t_id (?c x) = t_id x" "\<And>x. t_houseId (?c x) = t_houseId x"
    "t_categoryId (?c (task tk)) = t_categoryId (task tk)"
    "t_createdById (?c (task tk)) = t_createdById (task tk)"
    by (simp_all add: updateTaskStatus_data_def)
  have u: "task_update taskId ?c s =
           (s\<lparr>tasks := map (\<lambda>x. if t_id x = taskId then ?c x else x) (tasks s)\<rparr>,
            Inr \<lparr>task = ?c (task tk), assignees = assignees tk\<rparr>)"
    "getTaskById (s\<lparr>tasks := map (\<lambda>x. if t_id x = taskId then ?c x else x) (tasks s)\<rparr>)
           taskId houseId = Inr \<lparr>task = ?c (task tk), assignees = assignees tk\<rparr>"
    "tasks_pkey (s\<lparr>tasks := map (\<lambda>x. if t_id x = taskId then ?c x else x) (tasks s)\<rparr>)"
    using task_update_ok [OF pk found _ keep(1,2)] keep(3) by blast+
  have st: "t_status (?c (task tk)) = status"
    "t_completedAt (?c (task tk)) = (if status = COMPLETED then Some now else None)"
    by (cases status; simp add: updateTaskStatus_data_def)+
  have p: "canUserModifyTask \<lparr>task = ?c (task tk), assignees = assignees tk\<rparr> M"
    using perm keep(4) by (simp add: canUserModifyTask_iff)
  have "updateTaskStatus now taskId houseId M status s =
          (s\<lparr>tasks := map (\<lambda>x. if t_id x = taskId then ?c x else x) (tasks s)\<rparr>,
           Inr \<lparr>task = ?c (task tk), assignees = assignees tk\<rparr>)"
    using found perm u(1) by (simp add: updateTaskStatus_def)
  then show ?thesis using u(2,3) st p by auto
qed

lemma updateTask_keeps_status:
  assumes pk: "tasks_pkey s" and found: "getTaskById s taskId houseId = Inr tk"
    and upd: "updateTask env taskId houseId M data s = (s1, Inr tk1)"
  shows "t_completedAt (task tk1) = t_completedAt (task tk) \<and> t_status (task tk1) = t_status (task tk)"
proof -
  have k: "\<And>d x. t_completedAt (updateTask_data data d x) = t_completedAt x"
    "\<And>d x. t_status (updateTask_data data d x) = t_status x"
    by (simp_all add: updateTask_data_def Let_def split: js.splits)
  show ?thesis
    using upd found found_by_id [OF pk found] k
    by (auto simp: updateTask_def task_update_def Let_def include_assignees_def
        split: if_splits sum.splits)
qed

text \<open>
  Claim C5. The OWNER of the house is among the actors permitted to change a task's
  status. In the example house the OWNER, who neither created the task nor is assigned to
  it, calls \<open>updateTaskStatus\<close> with COMPLETED: the call is refused with ForbiddenError,
  the status stays PENDING and \<open>completedAt\<close> stays NULL, where the creator's same call
  stores COMPLETED and the time of the call.
\<close>

theorem owner_refused_status_update:
  "houseMember_findUnique_id ex_store ''m1'' = Some ex_owner
   \<and> m_role ex_owner = OWNER \<and> m_houseId ex_owner = ''h1''
   \<and> updateTaskStatus 200 ''t1'' ''h1'' ''m1'' COMPLETED ex_store =
       (ex_store, Inl (ForbiddenError
          ''Only task creator, assignees, or house owner can update task status''))
   \<and> map t_status (tasks (fst (updateTaskStatus 200 ''t1'' ''h1'' ''m1'' COMPLETED ex_store)))
       = [PENDING]
   \<and> map t_completedAt
         (tasks (fst (updateTaskStatus 200 ''t1'' ''h1'' ''m1'' COMPLETED ex_store)))
       = [None]
   \<and> map t_completedAt
         (tasks (fst (updateTaskStatus 200 ''t1'' ''h1'' ''m2'' COMPLETED ex_store)))
       = [Some 200]"
  by (simp add: houseMember_findUnique_id_def getTaskById_def include_assignees_def
      canUserModifyTask_def updateTaskStatus_def task_update_def updateTaskStatus_data_def
      Let_def ex_store_def ex_owner_def ex_task_def)

text \<open>
  The coupling of status and \<open>completedAt\<close> for the actors \<open>canUserModifyTask\<close>
  lets through, the creator and the assignees: for a task found in the house
  \<open>updateTaskStatus\<close> succeeds, stores the status, and stores \<open>completedAt\<close> as the
  time of the call for COMPLETED and as NULL for PENDING, so that afterwards
  \<open>completedAt\<close> is set exactly when the status is COMPLETED; a following call with
  COMPLETED stamps the time of that call, a following call with PENDING clears it.
  \<open>updateTask\<close> changes neither the status nor \<open>completedAt\<close>.
\<close>

theorem updateTaskStatus_completedAt:
  assumes pk: "tasks_pkey s" and found: "getTaskById s taskId houseId = Inr tk"
    and perm: "canUserModifyTask tk M"
  shows "(\<exists>s' tk'. updateTaskStatus now taskId houseId M status s = (s', Inr tk')
           \<and> getTaskById s' taskId houseId = Inr tk'
           \<and> t_status (task tk') = status
           \<and> t_completedAt (task tk') = (if status = COMPLETED then Some now else None)
           \<and> (t_completedAt (task tk') \<noteq> None \<longleftrightarrow> t_status (task tk') = COMPLETED)
           \<and> (\<exists>s'' tk''. updateTaskStatus later taskId houseId M COMPLETED s' = (s'', Inr tk'')
                 \<and> t_completedAt (task tk'') = Some later)
           \<and> (\<exists>s'' tk''. updateTaskStatus later taskId houseId M PENDING s' = (s'', Inr tk'')
                 \<and> t_completedAt (task tk'') = None))
       \<and> (\<forall>env data s1 tk1. updateTask env taskId houseId M data s = (s1, Inr tk1) \<longrightarrow>
             t_completedAt (task tk1) = t_completedAt (task tk)
             \<and> t_status (task tk1) = t_status (task tk))"
proof
  obtain s' tk' where a: "updateTaskStatus now taskId houseId M status s = (s', Inr tk')"
    "t_status (task tk') = status"
    "t_completedAt (task tk') = (if status = COMPLETED then Some now else None)"
    "getTaskById s' taskId houseId = Inr tk'" "tasks_pkey s'" "canUserModifyTask tk' M"
    using updateTaskStatus_step [OF pk found perm, of now status] by blast
  have b: "\<exists>s'' tk''. updateTaskStatus later taskId houseId M COMPLETED s' = (s'', Inr tk'')
                 \<and> t_completedAt (task tk'') = Some later"
    using updateTaskStatus_step [OF a(5) a(4) a(6), of later COMPLETED] by auto
  have c: "\<exists>s'' tk''. updateTaskStatus later taskId houseId M PENDING s' = (s'', Inr tk'')
                 \<and> t_completedAt (task tk'') = None"
    using updateTaskStatus_step [OF a(5) a(4) a(6), of later PENDING] by auto
  have d: "t_completedAt (task tk') \<noteq> None \<longleftrightarrow> t_status (task tk') = COMPLETED"
    using a(2,3) by simp
  show "\<exists>s' tk'. updateTaskStatus now taskId houseId M status s = (s', Inr tk')
           \<and> getTaskById s' taskId houseId = Inr tk'
           \<and> t_status (task tk') = status
           \<and> t_completedAt (task tk') = (if status = COMPLETED then Some now else None)
           \<and> (t_completedAt (task tk') \<noteq> None \<longleftrightarrow> t_status (task tk') = COMPLETED)
           \<and> (\<exists>s'' tk''. updateTaskStatus later taskId houseId M COMPLETED s' = (s'', Inr tk'')
                 \<and> t_completedAt (task tk'') = Some later)
           \<and> (\<exists>s'' tk''. updateTaskStatus later taskId houseId M PENDING s' = (s'', Inr tk'')
                 \<and> t_completedAt (task tk'') = None)"
    using a(1,2,3,4) b c d by blast
  show "\<forall>env data s1 tk1. updateTask env taskId houseId M data s = (s1, Inr tk1) \<longrightarrow>
             t_completedAt (task tk1) = t_completedAt (task tk)
             \<and> t_status (task tk1) = t_status (task tk)"
    using updateTask_keeps_status [OF pk found] by blast
qed

theorem updateTaskStatus_completedAt_witness:
  "tasks_pkey ex_store
   \<and> getTaskById ex_store ''t1'' ''h1'' =
        Inr \<lparr>task = ex_task, assignees = [\<lparr>a_taskId = ''t1'', a_houseMemberId = ''m3''\<rparr>]\<rparr>
   \<and> canUserModifyTask
        \<lparr>task = ex_task, assignees = [\<lparr>a_taskId = ''t1'', a_houseMemberId = ''m3''\<rparr>]\<rparr> ''m3''
   \<and> updateTaskStatus 200 ''t1'' ''h1'' ''m3'' COMPLETED ex_store =
        (ex_store\<lparr>tasks := [ex_task\<lparr>t_status := COMPLETED, t_completedAt := Some 200\<rparr>]\<rparr>,
         Inr \<lparr>task = ex_task\<lparr>t_status := COMPLETED, t_completedAt := Some 200\<rparr>,
              assignees = [\<lparr>a_taskId = ''t1'', a_houseMemberId = ''m3''\<rparr>]\<rparr>)
   \<and> updateTaskStatus 300 ''t1'' ''h1'' ''m3'' PENDING
        (ex_store\<lparr>tasks := [ex_task\<lparr>t_status := COMPLETED, t_completedAt := Some 200\<rparr>]\<rparr>) =
        (ex_store\<lparr>tasks := [ex_task\<lparr>t_status := PENDING, t_completedAt := None\<rparr>]\<rparr>,
         Inr \<lparr>task = ex_task\<lparr>t_status := PENDING, t_completedAt := None\<rparr>,
              assignees = [\<lparr>a_taskId = ''t1'', a_houseMemberId = ''m3''\<rparr>]\<rparr>)"
proof -
  have pk: "tasks_pkey ex_store"
    by (simp add: tasks_pkey_def ex_store_def)
  have found: "getTaskById ex_store ''t1'' ''h1'' =
        Inr \<lparr>task = ex_task, assignees = [\<lparr>a_taskId = ''t1'', a_houseMemberId = ''m3''\<rparr>]\<rparr>"
    by (simp add: getTaskById_def include_assignees_def ex_store_def ex_task_def)
  have perm: "canUserModifyTask
        \<lparr>task = ex_task, assignees = [\<lparr>a_taskId = ''t1'', a_houseMemberId = ''m3''\<rparr>]\<rparr> ''m3''"
    by (simp add: canUserModifyTask_def ex_task_def)
  have a: "updateTaskStatus 200 ''t1'' ''h1'' ''m3'' COMPLETED ex_store =
        (ex_store\<lparr>tasks := [ex_task\<lparr>t_status := COMPLETED, t_completedAt := Some 200\<rparr>]\<rparr>,
         Inr \<lparr>task = ex_task\<lparr>t_status := COMPLETED, t_completedAt := Some 200\<rparr>,
              assignees = [\<lparr>a_taskId = ''t1'', a_houseMemberId = ''m3''\<rparr>]\<rparr>)"
    by (simp add: updateTaskStatus_def getTaskById_def include_assignees_def
        canUserModifyTask_def task_update_def updateTaskStatus_data_def Let_def
        ex_store_def ex_task_def)
  have b: "updateTaskStatus 300 ''t1'' ''h1'' ''m3'' PENDING
        (ex_store\<lparr>tasks := [ex_task\<lparr>t_status := COMPLETED, t_completedAt := Some 200\<rparr>]\<rparr>) =
        (ex_store\<lparr>tasks := [ex_task\<lparr>t_status := PENDING, t_completedAt := None\<rparr>]\<rparr>,
         Inr \<lparr>task = ex_task\<lparr>t_status := PENDING, t_completedAt := None\<rparr>,
              assignees = [\<lparr>a_taskId = ''t1'', a_houseMemberId = ''m3''\<rparr>]\<rparr>)"
    by (simp add: updateTaskStatus_def getTaskById_def include_assignees_def
        canUserModifyTask_def task_update_def updateTaskStatus_data_def Let_def
        ex_store_def ex_task_def)
  show ?thesis
    using updateTaskStatus_completedAt [OF pk found perm, where now = 200 and later = 300
        and status = COMPLETED] pk found perm a b
    by simp
qed

lemma updateTask_data_fields:
  "t_title (updateTask_data data due t) =
     (case uti_title data of Val v \<Rightarrow> if v = [] then t_title t else v | _ \<Rightarrow> t_title t)"
  "t_description (updateTask_data data due t) =
     (case uti_description data of
        Undefined \<Rightarrow> t_description t | Null \<Rightarrow> None | Val v \<Rightarrow> Some v)"
  "t_priority (updateTask_data data due t) =
     (case uti_priority data of Val p \<Rightarrow> p | _ \<Rightarrow> t_priority t)"
  "t_dueDate (updateTask_data data due t) =
     (if uti_dueDate data = Undefined then t_dueDate t else due)"
  "t_categoryId (updateTask_data data due t) =
     (case uti_categoryId data of
        Undefined \<Rightarrow> t_categoryId t | Null \<Rightarrow> None | Val v \<Rightarrow> Some v)"
  "t_id (updateTask_data data due t) = t_id t"
  "t_status (updateTask_data data due t) = t_status t"
  "t_completedAt (updateTask_data data due t) = t_completedAt t"
  "t_createdAt (updateTask_data data due t) = t_createdAt t"
  "t_houseId (updateTask_data data due t) = t_houseId t"
  "t_createdById (updateTask_data data due t) = t_createdById t"
  by (simp_all add: updateTask_data_def Let_def split: js.splits)

lemma dueDate_arg_Inr:
  "dueDate_arg env x = Inr due \<Longrightarrow>
   due = (case x of Val v \<Rightarrow> if v = [] then None else js_Date env v | _ \<Rightarrow> None)"
  by (cases x) (auto split: if_splits option.splits)

lemma filter_other_rows:
  "filter (\<lambda>x. f x \<noteq> k) (map (\<lambda>x. if f x = k then g x else x) xs) = filter (\<lambda>x. f x \<noteq> k) xs"
  if "\<And>x. f (g x) = f x"
  using that by (induction xs) auto

lemma updateTask_success:
  assumes pk: "tasks_pkey s" and found: "getTaskById s taskId houseId = Inr tk"
    and upd: "updateTask env taskId houseId M data s = (s', Inr tk')"
  shows "\<exists>due. dueDate_arg env (uti_dueDate data) = Inr due
           \<and> s' = s\<lparr>tasks := map (\<lambda>x. if t_id x = taskId then updateTask_data data due x else x)
                                (tasks s)\<rparr>
           \<and> tk' = \<lparr>task = updateTask_data data due (task tk), assignees = assignees tk\<rparr>
           \<and> getTaskById s' taskId houseId = Inr tk'"
proof -
  obtain due where due: "dueDate_arg env (uti_dueDate data) = Inr due"
    and tu: "task_update taskId (updateTask_data data due) s = (s', Inr tk')"
    using upd found
    by (auto simp: updateTask_def split: if_splits sum.splits)
  let ?c = "updateTask_data data due"
  have fk: "t_categoryId (?c (task tk)) = t_categoryId (task tk)
             \<or> category_fk_ok s (t_categoryId (?c (task tk)))"
    using tu found_by_id [OF pk found]
    by (auto simp: task_update_def Let_def split: if_splits)
  have u: "task_update taskId ?c s =
           (s\<lparr>tasks := map (\<lambda>x. if t_id x = taskId then ?c x else x) (tasks s)\<rparr>,
            Inr \<lparr>task = ?c (task tk), assignees = assignees tk\<rparr>)"
    "getTaskById (s\<lparr>tasks := map (\<lambda>x. if t_id x = taskId then ?c x else x) (tasks s)\<rparr>)
           taskId houseId = Inr \<lparr>task = ?c (task tk), assignees = assignees tk\<rparr>"
    using task_update_ok [where change = ?c, OF pk found fk] updateTask_data_fields(6,10)
    by blast+
  show ?thesis using due tu u by auto
qed

lemma category_found_fk:
  "\<not> category_foreign s houseId c \<Longrightarrow> category_fk_ok s (Some c)"
proof -
  assume a: "\<not> category_foreign s houseId c"
  then obtain cat where "find (\<lambda>x. c_id x = c) (categories s) = Some cat"
    by (auto simp: category_foreign_def category_findUnique_def split: option.splits)
  then have "cat \<in> set (categories s) \<and> c_id cat = c" by (rule find_Some_mem)
  then show ?thesis by (force simp: category_fk_ok_def)
qed

lemma updateTask_succeeds:
  assumes pk: "tasks_pkey s" and found: "getTaskById s taskId houseId = Inr tk"
    and perm: "canUserModifyTask tk M"
    and cat: "case uti_categoryId data of
                Val c \<Rightarrow> c \<noteq> [] \<and> \<not> category_foreign s houseId c | _ \<Rightarrow> True"
    and date: "case uti_dueDate data of Val v \<Rightarrow> v = [] \<or> js_Date env v \<noteq> None | _ \<Rightarrow> True"
  shows "\<exists>s' tk'. updateTask env taskId houseId M data s = (s', Inr tk')"
proof -
  have "\<exists>due. dueDate_arg env (uti_dueDate data) = Inr due"
    using date by (cases "uti_dueDate data") auto
  then obtain due where due: "dueDate_arg env (uti_dueDate data) = Inr due" ..
  let ?c = "updateTask_data data due"
  have fk: "t_categoryId (?c (task tk)) = t_categoryId (task tk)
             \<or> category_fk_ok s (t_categoryId (?c (task tk)))"
    using cat category_found_fk [of s houseId]
    by (cases "uti_categoryId data") (auto simp: updateTask_data_fields category_fk_ok_def)
  have nc: "\<not> (case uti_categoryId data of
                     Val categoryId \<Rightarrow> categoryId \<noteq> [] \<and> category_foreign s houseId categoryId
                   | _ \<Rightarrow> False)"
    using cat by (cases "uti_categoryId data") auto
  have u: "task_update taskId ?c s =
           (s\<lparr>tasks := map (\<lambda>x. if t_id x = taskId then ?c x else x) (tasks s)\<rparr>,
            Inr \<lparr>task = ?c (task tk), assignees = assignees tk\<rparr>)"
    using task_update_ok(1) [where change = ?c, OF pk found fk] updateTask_data_fields(6,10)
    by blast
  show ?thesis
    using found perm nc due u by (simp add: updateTask_def)
qed

lemma null_rejected:
  assumes "utb_description body = Some JNull \<or> utb_dueDate body = Some JNull
           \<or> utb_categoryId body = Some JNull"
  shows "\<exists>e. updateTaskSchema env now body = Inl e"
  using assms
  by (auto simp: updateTaskSchema_def optional_def split: sum.splits option.splits)

lemma controller_null_rejected:
  assumes "utb_description body = Some JNull \<or> utb_dueDate body = Some JNull
           \<or> utb_categoryId body = Some JNull"
  shows "\<exists>e. TaskController_updateTask env now id_param taskId_param body M s = (s, Inl e)"
  using null_rejected [OF assms, of env now]
  by (auto simp: TaskController_updateTask_def split: sum.splits)


text \<open>
  A request through the controller whose body gives \<open>description\<close> as \<open>null\<close>, sent
  by the creator of the task: the schema rejects it and the description stays; the same
  request with a string changes the description.
\<close>

theorem null_not_cleared_at_controller:
  "snd (TaskController_updateTask ex_env 0 ''00000000-0000-4000-8000-0000000000a1''
          ''00000000-0000-4000-8000-0000000000c1''
          \<lparr>utb_title = None, utb_description = Some JNull, utb_priority = None,
           utb_dueDate = None, utb_categoryId = None\<rparr>
          ''00000000-0000-4000-8000-0000000000b1'' ex_uuid_store)
     = Inl (ZodError ''Expected string'')
   \<and> map t_description (tasks (fst (TaskController_updateTask ex_env 0
          ''00000000-0000-4000-8000-0000000000a1'' ''00000000-0000-4000-8000-0000000000c1''
          \<lparr>utb_title = None, utb_description = Some JNull, utb_priority = None,
           utb_dueDate = None, utb_categoryId = None\<rparr>
          ''00000000-0000-4000-8000-0000000000b1'' ex_uuid_store)))
     = [Some ''old'']
   \<and> map t_description (tasks (fst (TaskController_updateTask ex_env 0
          ''00000000-0000-4000-8000-0000000000a1'' ''00000000-0000-4000-8000-0000000000c1''
          \<lparr>utb_title = None, utb_description = Some (JString ''new''), utb_priority = None,
           utb_dueDate = None, utb_categoryId = None\<rparr>
          ''00000000-0000-4000-8000-0000000000b1'' ex_uuid_store)))
     = [Some ''new'']"
  by (simp add: TaskController_updateTask_def ex_env_def uuid_shape_def
      is_hex_def updateTaskSchema_def optional_def ex_uuid_store_def ex_uuid_task_def
      updateTask_def getTaskById_def include_assignees_def canUserModifyTask_def
      task_update_def updateTask_data_def Let_def trim_def is_space_def)

text \<open>
  Claim C8, as amended. For a task found in the house, whenever \<open>updateTask\<close> succeeds
  the stored task is the returned one, each of title, description, priority, due date and
  category is the old value when the field is \<open>undefined\<close> and the given one otherwise
  (an empty title is ignored), a description, due date or category given as \<open>null\<close>
  is stored as NULL, and every other column, the assignees and every other task are
  unchanged; the update succeeds for a permitted actor whenever the category, if given,
  belongs to the house and the due date, if given, is a date. The request schema never
  yields \<open>null\<close>: a body with \<open>null\<close> for one of the three fields does not parse.
\<close>

theorem updateTask_partial_update:
  assumes pk: "tasks_pkey s" and found: "getTaskById s taskId houseId = Inr tk"
  shows "(\<forall>s' tk'. updateTask env taskId houseId M data s = (s', Inr tk') \<longrightarrow>
            getTaskById s' taskId houseId = Inr tk'
          \<and> t_title (task tk') =
              (case uti_title data of
                 Val v \<Rightarrow> if v = [] then t_title (task tk) else v
               | _ \<Rightarrow> t_title (task tk))
          \<and> t_description (task tk') =
              (case uti_description data of
                 Undefined \<Rightarrow> t_description (task tk) | Null \<Rightarrow> None | Val v \<Rightarrow> Some v)
          \<and> t_priority (task tk') =
              (case uti_priority data of Val p \<Rightarrow> p | _ \<Rightarrow> t_priority (task tk))
          \<and> t_dueDate (task tk') =
              (case uti_dueDate data of
                 Undefined \<Rightarrow> t_dueDate (task tk) | Null \<Rightarrow> None
               | Val v \<Rightarrow> if v = [] then None else js_Date env v)
          \<and> t_categoryId (task tk') =
              (case uti_categoryId data of
                 Undefined \<Rightarrow> t_categoryId (task tk) | Null \<Rightarrow> None | Val v \<Rightarrow> Some v)
          \<and> t_id (task tk') = t_id (task tk) \<and> t_status (task tk') = t_status (task tk)
          \<and> t_completedAt (task tk') = t_completedAt (task tk)
          \<and> t_createdAt (task tk') = t_createdAt (task tk)
          \<and> t_houseId (task tk') = t_houseId (task tk)
          \<and> t_createdById (task tk') = t_createdById (task tk)
          \<and> assignees tk' = assignees tk
          \<and> filter (\<lambda>x. t_id x \<noteq> taskId) (tasks s') = filter (\<lambda>x. t_id x \<noteq> taskId) (tasks s))
       \<and> (canUserModifyTask tk M
           \<and> (case uti_categoryId data of
                 Val c \<Rightarrow> c \<noteq> [] \<and> \<not> category_foreign s houseId c | _ \<Rightarrow> True)
           \<and> (case uti_dueDate data of
                 Val v \<Rightarrow> v = [] \<or> js_Date env v \<noteq> None | _ \<Rightarrow> True) \<longrightarrow>
           (\<exists>s' tk'. updateTask env taskId houseId M data s = (s', Inr tk')))
       \<and> (\<forall>now body d. updateTaskSchema env now body = Inr d \<longrightarrow>
             utb_description body \<noteq> Some JNull \<and> utb_dueDate body \<noteq> Some JNull
             \<and> utb_categoryId body \<noteq> Some JNull
             \<and> uti_description d \<noteq> Null \<and> uti_dueDate d \<noteq> Null
             \<and> uti_categoryId d \<noteq> Null)
       \<and> (\<forall>now id_param taskId_param body.
             utb_description body = Some JNull \<or> utb_dueDate body = Some JNull
             \<or> utb_categoryId body = Some JNull \<longrightarrow>
             (\<exists>e. TaskController_updateTask env now id_param taskId_param body M s
                    = (s, Inl e)))"
proof (intro conjI allI impI)
  fix s' tk'
  assume upd: "updateTask env taskId houseId M data s = (s', Inr tk')"
  obtain due where due: "dueDate_arg env (uti_dueDate data) = Inr due"
    and s': "s' = s\<lparr>tasks := map (\<lambda>x. if t_id x = taskId then updateTask_data data due x else x)
                                (tasks s)\<rparr>"
    and tk': "tk' = \<lparr>task = updateTask_data data due (task tk), assignees = assignees tk\<rparr>"
    and g: "getTaskById s' taskId houseId = Inr tk'"
    using updateTask_success [OF pk found upd] by blast
  note d = dueDate_arg_Inr [OF due]
  show "getTaskById s' taskId houseId = Inr tk'" by (rule g)
  show "t_title (task tk') =
              (case uti_title data of
                 Val v \<Rightarrow> if v = [] then t_title (task tk) else v
               | _ \<Rightarrow> t_title (task tk))"
    by (simp add: tk' updateTask_data_fields)
  show "t_description (task tk') =
              (case uti_description data of
                 Undefined \<Rightarrow> t_description (task tk) | Null \<Rightarrow> None | Val v \<Rightarrow> Some v)"
    by (simp add: tk' updateTask_data_fields)
  show "t_priority (task tk') =
              (case uti_priority data of Val p \<Rightarrow> p | _ \<Rightarrow> t_priority (task tk))"
    by (simp add: tk' updateTask_data_fields)
  show "t_dueDate (task tk') =
              (case uti_dueDate data of
                 Undefined \<Rightarrow> t_dueDate (task tk) | Null \<Rightarrow> None
               | Val v \<Rightarrow> if v = [] then None else js_Date env v)"
    using d by (cases "uti_dueDate data") (simp_all add: tk' updateTask_data_fields)
  show "t_categoryId (task tk') =
              (case uti_categoryId data of
                 Undefined \<Rightarrow> t_categoryId (task tk) | Null \<Rightarrow> None | Val v \<Rightarrow> Some v)"
    by (simp add: tk' updateTask_data_fields)
  show "t_id (task tk') = t_id (task tk)" "t_status (task tk') = t_status (task tk)"
    "t_completedAt (task tk') = t_completedAt (task tk)"
    "t_createdAt (task tk') = t_createdAt (task tk)"
    "t_houseId (task tk') = t_houseId (task tk)"
    "t_createdById (task tk') = t_createdById (task tk)"
    "assignees tk' = assignees tk"
    by (simp_all add: tk' updateTask_data_fields)
  show "filter (\<lambda>x. t_id x \<noteq> taskId) (tasks s') = filter (\<lambda>x. t_id x \<noteq> taskId) (tasks s)"
    unfolding s' using filter_other_rows [of t_id "updateTask_data data due" taskId "tasks s"]
    by (simp add: updateTask_data_fields)
next
  assume a: "canUserModifyTask tk M
           \<and> (case uti_categoryId data of
                 Val c \<Rightarrow> c \<noteq> [] \<and> \<not> category_foreign s houseId c | _ \<Rightarrow> True)
           \<and> (case uti_dueDate data of
                 Val v \<Rightarrow> v = [] \<or> js_Date env v \<noteq> None | _ \<Rightarrow> True)"
  show "\<exists>s' tk'. updateTask env taskId houseId M data s = (s', Inr tk')"
    using updateTask_succeeds [OF pk found] a by blast
next
  fix now body d
  assume p: "updateTaskSchema env now body = Inr d"
  show "utb_description body \<noteq> Some JNull" "utb_dueDate body \<noteq> Some JNull"
    "utb_categoryId body \<noteq> Some JNull"
    using p null_rejected [of body env now] by auto
  show "uti_description d \<noteq> Null" "uti_dueDate d \<noteq> Null" "uti_categoryId d \<noteq> Null"
    using p by (auto simp: updateTaskSchema_def optional_def split: sum.splits option.splits)
next
  fix now id_param taskId_param and body :: UpdateTaskBody
  assume "utb_description body = Some JNull \<or> utb_dueDate body = Some JNull
             \<or> utb_categoryId body = Some JNull"
  then show "\<exists>e. TaskController_updateTask env now id_param taskId_param body M s
                    = (s, Inl e)"
    by (rule controller_null_rejected)
qed

theorem updateTask_partial_update_witness:
  "tasks_pkey ex_store
   \<and> getTaskById ex_store ''t1'' ''h1'' =
        Inr \<lparr>task = ex_task, assignees = [\<lparr>a_taskId = ''t1'', a_houseMemberId = ''m3''\<rparr>]\<rparr>
   \<and> updateTask ex_env ''t1'' ''h1'' ''m2''
        \<lparr>uti_title = Undefined, uti_description = Null, uti_priority = Val LOW,
         uti_dueDate = Null, uti_categoryId = Undefined\<rparr> ex_store =
        (ex_store\<lparr>tasks := [ex_task\<lparr>t_description := None, t_priority := LOW,
                                      t_dueDate := None\<rparr>]\<rparr>,
         Inr \<lparr>task = ex_task\<lparr>t_description := None, t_priority := LOW, t_dueDate := None\<rparr>,
              assignees = [\<lparr>a_taskId = ''t1'', a_houseMemberId = ''m3''\<rparr>]\<rparr>)"
proof -
  have pk: "tasks_pkey ex_store"
    by (simp add: tasks_pkey_def ex_store_def)
  have found: "getTaskById ex_store ''t1'' ''h1'' =
        Inr \<lparr>task = ex_task, assignees = [\<lparr>a_taskId = ''t1'', a_houseMemberId = ''m3''\<rparr>]\<rparr>"
    by (simp add: getTaskById_def include_assignees_def ex_store_def ex_task_def)
  have a: "updateTask ex_env ''t1'' ''h1'' ''m2''
        \<lparr>uti_title = Undefined, uti_description = Null, uti_priority = Val LOW,
         uti_dueDate = Null, uti_categoryId = Undefined\<rparr> ex_store =
        (ex_store\<lparr>tasks := [ex_task\<lparr>t_description := None, t_priority := LOW,
                                      t_dueDate := None\<rparr>]\<rparr>,
         Inr \<lparr>task = ex_task\<lparr>t_description := None, t_priority := LOW, t_dueDate := None\<rparr>,
              assignees = [\<lparr>a_taskId = ''t1'', a_houseMemberId = ''m3''\<rparr>]\<rparr>)"
    by (simp add: updateTask_def getTaskById_def include_assignees_def
        canUserModifyTask_def task_update_def updateTask_data_def Let_def
        ex_store_def ex_task_def)
  show ?thesis
    using updateTask_partial_update [OF pk found, where env = ex_env and M = "''m2''"
        and data = "\<lparr>uti_title = Undefined, uti_description = Null, uti_priority = Val LOW,
         uti_dueDate = Null, uti_categoryId = Undefined\<rparr>"] pk found a
    by simp
qed










end
